theory Spec2Isabelle
  imports
    Complex_Main
    "HOL-Library.Char_ord"
    "HOL-Library.List_Lexorder"
    "HOL-Library.Product_Lexorder"
begin

section \<open>Shared data: combinations\<close>

text \<open>
  A combination as it stands in \<^verbatim>\<open>data/combinations.json\<close> and as the page reads it:
  \<^verbatim>\<open>combo.states\<close> (an array of state names) and \<^verbatim>\<open>combo.total_km2\<close>. Areas are whole
  square kilometres, as in the \<^verbatim>\<open>stateAreas\<close> table of \<^verbatim>\<open>app.js\<close>.
\<close>

type_synonym state_name = string

record combo =
  states :: "state_name list"
  total_km2 :: int

section \<open>The Combination Enumerator\<close>

text \<open>
  The enumerator (\<^verbatim>\<open>comparison.py\<close>) is named by the README but is not among the source
  files; only its output format and the specification's description are available. Every
  definition of this section is therefore modelled from the specification (sections 3, 4.1,
  7 and 8) and says so.
\<close>

text \<open>Modelled from the spec: the enumerator's input (section 4.1, Contract): the adjacency
  graph as a mapping from a state to its neighbours, the area of each state, the target area, the
  tolerance, and the minimum and maximum allowed group size. \<^verbatim>\<open>comparison.py\<close> is missing.\<close>

record enumerator_input =
  adjacency :: "(state_name \<times> state_name list) list"
  areas :: "(state_name \<times> int) list"
  target_area :: int
  tolerance :: int
  min_size :: nat
  max_size :: nat

text \<open>Modelled from the spec: the fatal configuration errors of section 7, each naming the
  state whose area or adjacency data is missing or malformed.\<close>

datatype config_error = MissingArea state_name | BadAdjacency state_name

text \<open>Modelled from the spec: the neighbours of a state in the adjacency mapping (section 3);
  a state that is not a key of the mapping has none. \<^verbatim>\<open>comparison.py\<close> is missing.\<close>

definition neighbours :: "(state_name \<times> state_name list) list \<Rightarrow> state_name \<Rightarrow> state_name list" where
  "neighbours g s = (case map_of g s of None \<Rightarrow> [] | Some ns \<Rightarrow> ns)"

text \<open>Modelled from the spec: the area of a state (section 3). \<^verbatim>\<open>comparison.py\<close> is
  missing. The search only runs on inputs where every state has an area (see
  \<open>check_config\<close>); the value for a state without one is never used there.\<close>

definition area_of :: "(state_name \<times> int) list \<Rightarrow> state_name \<Rightarrow> int" where
  "area_of ar s = (case map_of ar s of None \<Rightarrow> 0 | Some a \<Rightarrow> a)"

text \<open>Modelled from the spec: the total area of a combination is the sum of its members' areas
  (section 3), summed as exact integers (section 4.1, Numeric semantics).\<close>

definition sum_areas :: "(state_name \<times> int) list \<Rightarrow> state_name list \<Rightarrow> int" where
  "sum_areas ar xs = sum_list (map (area_of ar) xs)"

text \<open>Modelled from the spec: section 7, ``malformed or missing area/adjacency data for a state
  is a fatal configuration error (abort before searching)'', with the invariants of section 3:
  every state has a positive area, every neighbour is itself a state of the graph, the relation
  is symmetric and has no self-loops. The first offending state is reported.\<close>

definition state_ok :: "enumerator_input \<Rightarrow> state_name \<times> state_name list \<Rightarrow> config_error option" where
  "state_ok inp e =
     (case e of (s, ns) \<Rightarrow>
        (case map_of (areas inp) s of
           None \<Rightarrow> Some (MissingArea s)
         | Some a \<Rightarrow>
             if a \<le> 0 then Some (MissingArea s)
             else if ns \<noteq> neighbours (adjacency inp) s then Some (BadAdjacency s)
             else if s \<in> set ns then Some (BadAdjacency s)
             else if list_all (\<lambda>n. n \<in> set (map fst (adjacency inp))
                                   \<and> s \<in> set (neighbours (adjacency inp) n)) ns
             then None
             else Some (BadAdjacency s)))"

text \<open>Modelled from the spec: the check of every state of the graph before the search starts
  (section 7, ``abort before searching'').\<close>

fun check_config :: "enumerator_input \<Rightarrow> (state_name \<times> state_name list) list \<Rightarrow> config_error option" where
  "check_config inp [] = None"
| "check_config inp (e # es) =
     (case state_ok inp e of Some err \<Rightarrow> Some err | None \<Rightarrow> check_config inp es)"

text \<open>Modelled from the spec: section 4.1, Algorithm design. The search grows a connected set
  ``by adding any graph-adjacent state not yet included'': \<open>frontier\<close> lists those states.\<close>

definition frontier :: "(state_name \<times> state_name list) list \<Rightarrow> state_name list \<Rightarrow> state_name list" where
  "frontier g xs = filter (\<lambda>v. v \<notin> set xs) (concat (map (neighbours g) xs))"

text \<open>Modelled from the spec: one growth step with branch-and-bound pruning: a branch is
  abandoned ``once the running area sum exceeds target + outer-tolerance-band''. Each grown set is
  kept in canonical form, the sorted sequence of its state names (section 4.1, Deduplication).\<close>

definition expand :: "enumerator_input \<Rightarrow> state_name list \<Rightarrow> state_name list list" where
  "expand inp xs =
     map (\<lambda>v. insort v xs)
       (filter (\<lambda>v. sum_areas (areas inp) xs + area_of (areas inp) v
                      \<le> target_area inp + tolerance inp)
          (frontier (adjacency inp) xs))"

text \<open>Modelled from the spec: all sets one state larger than those of a level, deduplicated on
  the canonical form.\<close>

definition next_level :: "enumerator_input \<Rightarrow> state_name list list \<Rightarrow> state_name list list" where
  "next_level inp lvl = remdups (concat (map (expand inp) lvl))"

text \<open>Modelled from the spec: the bounded breadth-first expansion. \<open>levels inp k lvl\<close> collects
  \<open>lvl\<close> and the next \<open>k - 1\<close> levels grown from it, so that a bound of \<open>k\<close> on the group size
  stops the search after \<open>k\<close> levels.\<close>

fun levels :: "enumerator_input \<Rightarrow> nat \<Rightarrow> state_name list list \<Rightarrow> state_name list list" where
  "levels inp 0 lvl = []"
| "levels inp (Suc k) lvl = lvl @ levels inp k (next_level inp lvl)"

text \<open>Modelled from the spec: every state is a potential seed; a seed whose own area already
  exceeds the outer band is pruned like any other branch.\<close>

definition seeds :: "enumerator_input \<Rightarrow> state_name list list" where
  "seeds inp =
     map (\<lambda>s. [s])
       (filter (\<lambda>s. area_of (areas inp) s \<le> target_area inp + tolerance inp)
          (remdups (map fst (adjacency inp))))"

text \<open>Modelled from the spec: everything the bounded search reaches from the seeds, up to the
  maximum group size (section 4.1).\<close>

definition candidates :: "enumerator_input \<Rightarrow> state_name list list" where
  "candidates inp = levels inp (max_size inp) (seeds inp)"

text \<open>Modelled from the spec: a combination is within tolerance when its area sum differs from
  the target by no more than the tolerance (section 3, Result Set; section 8).\<close>

definition within_tolerance :: "enumerator_input \<Rightarrow> state_name list \<Rightarrow> bool" where
  "within_tolerance inp xs = (\<bar>sum_areas (areas inp) xs - target_area inp\<bar> \<le> tolerance inp)"

text \<open>Modelled from the spec: the size bound from below (section 4.1, Contract) together with
  the tolerance.\<close>

definition retained :: "enumerator_input \<Rightarrow> state_name list \<Rightarrow> bool" where
  "retained inp xs = (min_size inp \<le> length xs \<and> within_tolerance inp xs)"

text \<open>Modelled from the spec: each combination of the output is ``tagged with its total area
  and member list'' (section 4.1, Contract).\<close>

definition tag :: "enumerator_input \<Rightarrow> state_name list \<Rightarrow> combo" where
  "tag inp xs = \<lparr>states = xs, total_km2 = sum_areas (areas inp) xs\<rparr>"

text \<open>Modelled from the spec: the enumerator. It aborts on a configuration error before
  searching; otherwise it returns the retained combinations, each tagged with its total area and
  member list, ordered by total area and then by the state-name sequence (section 4.1, Output
  ordering). An empty result is a valid outcome, not an error.\<close>

definition enumerate_combinations :: "enumerator_input \<Rightarrow> config_error + combo list" where
  "enumerate_combinations inp =
     (case check_config inp (adjacency inp) of
        Some err \<Rightarrow> Inl err
      | None \<Rightarrow>
          Inr (sort_key (\<lambda>c. (total_km2 c, states c))
                 (map (tag inp) (filter (retained inp) (candidates inp)))))"

text \<open>Modelled from the spec: the subgraph induced on a list of states: the pairs of members
  that are adjacent (section 3, Combination).\<close>

definition induced :: "(state_name \<times> state_name list) list \<Rightarrow> state_name list \<Rightarrow> (state_name \<times> state_name) list" where
  "induced g xs = concat (map (\<lambda>a. map (\<lambda>b. (a, b)) (filter (\<lambda>b. b \<in> set (neighbours g a)) xs)) xs)"

text \<open>Modelled from the spec: a combination is connected when it is non-empty and any member
  reaches any other along adjacent members, that is, the induced subgraph is a single connected
  component (section 3, Combination; Glossary, Contiguous combination).\<close>

definition connected_states :: "(state_name \<times> state_name list) list \<Rightarrow> state_name list \<Rightarrow> bool" where
  "connected_states g xs =
     (xs \<noteq> [] \<and> (\<forall>a \<in> set xs. \<forall>b \<in> set xs. (a, b) \<in> (set (induced g xs))\<^sup>*))"

text \<open>Modelled from the spec: the example of section 8, the path A - B - C - D with areas 10,
  20, 15 and 5, target 35 and tolerance 0; the size bounds are left open.\<close>

definition example_input :: "nat \<Rightarrow> nat \<Rightarrow> enumerator_input" where
  "example_input mn mx =
     \<lparr>adjacency = [(''A'', [''B'']), (''B'', [''A'', ''C'']), (''C'', [''B'', ''D'']), (''D'', [''C''])],
      areas = [(''A'', 10), (''B'', 20), (''C'', 15), (''D'', 5)],
      target_area = 35, tolerance = 0, min_size = mn, max_size = mx\<rparr>"

section \<open>The Interactive Viewer: data\<close>

text \<open>
  The Viewer is \<^verbatim>\<open>app.js\<close>. Its global variables and the parts of the page it writes are the
  fields of one record; every function of \<^verbatim>\<open>app.js\<close> becomes a function on that record.
  A function that can end in an uncaught exception returns the state reached when the exception
  was thrown together with the exception.
\<close>

datatype js_error = TypeError | SyntaxError

text \<open>The outcome of \<^verbatim>\<open>fetch(url)\<close> followed by \<^verbatim>\<open>response.json()\<close>: the fetch promise
  rejects (\<open>FetchFailed\<close>, a \<^verbatim>\<open>TypeError\<close>), the body is not JSON (\<open>NotJSON\<close>, a
  \<^verbatim>\<open>SyntaxError\<close>; this is also what a missing file gives, since the server answers it with an
  error page and \<^verbatim>\<open>app.js\<close> never looks at \<^verbatim>\<open>response.ok\<close>), or a parsed document.\<close>

datatype 'a fetched = FetchFailed | NotJSON | Parsed 'a

subsection \<open>The parsed documents, as the code reads them\<close>

text \<open>
  \<^verbatim>\<open>app.js\<close> checks nothing of what \<^verbatim>\<open>JSON.parse\<close> gives it, so a parsed document can be any
  JSON value. Every value the code reads is classed by what the reads of \<^verbatim>\<open>app.js\<close> do with
  it, so that each JSON document has its representative here: reading a member of
  \<^verbatim>\<open>undefined\<close> or \<^verbatim>\<open>null\<close>, and calling what is not a function, throw a \<^verbatim>\<open>TypeError\<close>; reading a
  member that a value does not have gives \<^verbatim>\<open>undefined\<close>. Two things are taken as typed, because
  no read of the code tells them apart at start-up: the \<^verbatim>\<open>name\<close> of a feature that has
  \<^verbatim>\<open>properties\<close>, and the elements of a \<^verbatim>\<open>states\<close> array, are strings.
\<close>

text \<open>What \<^verbatim>\<open>v.toLocaleString()\<close> shows for a value that has the method: a whole number (shown
  in the browser's locale), or the text any other value gives.\<close>

datatype shown = Number int | Other string

text \<open>The member \<^verbatim>\<open>states\<close> of an element of \<^verbatim>\<open>combinations\<close>, read by
  \<^verbatim>\<open>combo.states.length\<close>, \<^verbatim>\<open>combo.states.includes(name)\<close> and \<^verbatim>\<open>combo.states.join(', ')\<close>:
  \<^item> \<open>NoStates\<close>: the element is \<^verbatim>\<open>null\<close> or has no \<^verbatim>\<open>states\<close> (or a \<^verbatim>\<open>null\<close> one); each of
    the three reads throws;
  \<^item> \<open>StateList\<close>: an array; no read throws;
  \<^item> \<open>StateText\<close>: a string; \<^verbatim>\<open>includes\<close> is the substring test of strings, \<^verbatim>\<open>join\<close> is
    not a function;
  \<^item> \<open>StateOther\<close>: any other value; \<^verbatim>\<open>includes\<close> and \<^verbatim>\<open>join\<close> are not functions.
  \<^verbatim>\<open>length\<close> is read only inside the template of \<^verbatim>\<open>createComboItem\<close>, where a value that is
  not an array makes \<^verbatim>\<open>join\<close> throw before anything is shown.\<close>

datatype states_member = NoStates | StateList "state_name list" | StateText string | StateOther

text \<open>An element of \<^verbatim>\<open>combinations\<close>: its \<^verbatim>\<open>states\<close>, and what
  \<^verbatim>\<open>combo.total_km2.toLocaleString()\<close> shows (\<open>None\<close>: the member is absent or \<^verbatim>\<open>null\<close> and the
  call throws).\<close>

record entry =
  entry_states :: states_member
  entry_total :: "shown option"

text \<open>The member \<^verbatim>\<open>combinations\<close>, read by \<^verbatim>\<open>.length.toLocaleString()\<close>, \<^verbatim>\<open>.filter(...)\<close> and
  \<^verbatim>\<open>[idx]\<close>:
  \<^item> \<open>NoList\<close>: the document is not an object, or the member is absent, \<^verbatim>\<open>null\<close>, or a value
    without a \<^verbatim>\<open>length\<close> (a number, a truth value, an object without that member): the first
    read throws;
  \<^item> \<open>NotArray\<close>: a value with a \<^verbatim>\<open>length\<close>, shown as given, that is not an array (a string, an
    object with such a member): \<^verbatim>\<open>filter\<close> is not a function;
  \<^item> \<open>Entries\<close>: an array.\<close>

datatype list_member = NoList | NotArray shown | Entries "entry list"

text \<open>\<^verbatim>\<open>data/combinations.json\<close>: what \<^verbatim>\<open>greenland_km2.toLocaleString()\<close> shows (\<open>None\<close>: the
  document is not an object or the member is absent or \<^verbatim>\<open>null\<close>, and the call throws), and the
  member \<^verbatim>\<open>combinations\<close>.\<close>

record combinations_file =
  greenland_km2 :: "shown option"
  combinations :: list_member

text \<open>A feature of \<^verbatim>\<open>data/us-states.json\<close>, read by \<^verbatim>\<open>f.properties.name\<close>: \<open>BadFeature\<close> when
  the feature is \<^verbatim>\<open>null\<close> or has no \<^verbatim>\<open>properties\<close> (or \<^verbatim>\<open>null\<close> ones), so that the read
  throws; otherwise its name. The geometry only goes to the map widget.\<close>

datatype feature = BadFeature | Named state_name

text \<open>The member \<^verbatim>\<open>features\<close>, read by \<^verbatim>\<open>.filter(...)\<close>: \<open>NoFeatures\<close> when the document is
  not an object or the member is not an array, so that the call throws.\<close>

datatype features_member = NoFeatures | Features "feature list"

record geo_json =
  features :: features_member

text \<open>A combination as the enumerator writes it is an element with a list of states and a whole
  number for its total.\<close>

definition entry_of :: "combo \<Rightarrow> entry" where
  "entry_of c = \<lparr>entry_states = StateList (states c), entry_total = Some (Number (total_km2 c))\<rparr>"

definition as_combo :: "entry \<Rightarrow> combo option" where
  "as_combo e =
     (case entry_states e of
        StateList xs \<Rightarrow>
          (case entry_total e of
             Some (Number n) \<Rightarrow> Some \<lparr>states = xs, total_km2 = n\<rparr>
           | Some (Other str) \<Rightarrow> None
           | None \<Rightarrow> None)
      | NoStates \<Rightarrow> None
      | StateText t \<Rightarrow> None
      | StateOther \<Rightarrow> None)"

text \<open>The value \<^verbatim>\<open>undefined\<close> that an index beyond the array gives: reading its \<^verbatim>\<open>states\<close>
  throws, as for an element without that member.\<close>

definition undefined_entry :: entry where
  "undefined_entry = \<lparr>entry_states = NoStates, entry_total = None\<rparr>"

subsection \<open>The page\<close>

text \<open>The five path options the style objects of \<^verbatim>\<open>app.js\<close> mention.\<close>

record path_style =
  fillColor :: string
  weight :: int
  opacity :: rat
  color :: string
  fillOpacity :: rat

record layer =
  layer_name :: state_name
  layer_style :: path_style

text \<open>Text written to the page. \<open>Loc n\<close> stands for \<^verbatim>\<open>n.toLocaleString()\<close>, whose digits
  grouping depends on the browser's locale; \<open>Dec n\<close> for the plain decimal numeral a template
  literal gives; \<open>Fixed1 a b\<close> for \<^verbatim>\<open>(a / b * 100).toFixed(1)\<close>.\<close>

datatype piece = Str string | Dec int | Loc int | Fixed1 int int

type_synonym page_text = "piece list"

definition shown_piece :: "shown \<Rightarrow> piece" where
  "shown_piece v = (case v of Number n \<Rightarrow> Loc n | Other str \<Rightarrow> Str str)"

text \<open>A \<^verbatim>\<open>div.combo-item\<close> as \<^verbatim>\<open>createComboItem\<close> builds it.\<close>

record combo_item =
  item_index :: nat
  item_selected :: bool
  item_count :: page_text
  item_area :: page_text
  item_states :: string

record dropdown_item =
  item_name :: string
  item_highlighted :: bool

datatype viewport = InitialView | FitAll | FitLayers "nat list"

record viewer =
  statesLayer :: "layer list option"
  statesGeoJSON :: "geo_json option"
  combinationsData :: "combinations_file option"
  selectedComboIndex :: "nat option"
  selectedStates :: "state_name list"
  allStateNames :: "state_name list"
  highlightedIndex :: int
  map_created :: bool
  map_view :: viewport
  paint_order :: "nat list"
  innerWidth :: int
  map_container_hidden :: bool
  sidebar_hidden :: bool
  active_tab :: string
  greenland_area_text :: page_text
  combo_count_text :: page_text
  combinations_list :: "combo_item list"
  list_header :: page_text
  selected_info_hidden :: bool
  selected_states_text :: string
  selected_area_text :: page_text
  selected_filters :: "state_name list"
  filter_total_hidden :: bool
  filter_total :: page_text
  state_search :: string
  search_dropdown :: "dropdown_item list"
  search_dropdown_hidden :: bool
  listeners_installed :: bool

text \<open>The page before the script runs: the globals at their initialisers. \<^verbatim>\<open>index.html\<close> is not
  among the sources; its placeholders are taken to be empty, the list tab active and nothing hidden
  but the selection panel, the filter total and the dropdown.\<close>

definition initial_viewer :: "int \<Rightarrow> viewer" where
  "initial_viewer w =
     \<lparr>statesLayer = None, statesGeoJSON = None, combinationsData = None,
      selectedComboIndex = None, selectedStates = [], allStateNames = [],
      highlightedIndex = - 1,
      map_created = False, map_view = InitialView, paint_order = [],
      innerWidth = w, map_container_hidden = False, sidebar_hidden = False,
      active_tab = ''list'',
      greenland_area_text = [], combo_count_text = [],
      combinations_list = [], list_header = [],
      selected_info_hidden = True, selected_states_text = [], selected_area_text = [],
      selected_filters = [], filter_total_hidden = True, filter_total = [],
      state_search = [], search_dropdown = [], search_dropdown_hidden = True,
      listeners_installed = False\<rparr>"

type_synonym outcome = "viewer \<times> js_error option"

definition ok :: "viewer \<Rightarrow> outcome" where
  "ok s = (s, None)"

definition throw :: "js_error \<Rightarrow> viewer \<Rightarrow> outcome" where
  "throw e s = (s, Some e)"

text \<open>Sequencing: the statements after one that threw do not run.\<close>

definition and_then :: "outcome \<Rightarrow> (viewer \<Rightarrow> outcome) \<Rightarrow> outcome" where
  "and_then r f = (case snd r of None \<Rightarrow> f (fst r) | Some e \<Rightarrow> r)"

subsection \<open>Constants of \<^verbatim>\<open>app.js\<close>\<close>

definition stateAreas :: "(state_name \<times> int) list" where
  "stateAreas =
     [(''Alabama'', 135767), (''Arizona'', 295234), (''Arkansas'', 137732), (''California'', 423967),
      (''Colorado'', 269601), (''Connecticut'', 14357), (''Delaware'', 6446), (''Florida'', 170312),
      (''Georgia'', 153910), (''Idaho'', 216443), (''Illinois'', 149995), (''Indiana'', 94326),
      (''Iowa'', 145746), (''Kansas'', 213100), (''Kentucky'', 104656), (''Louisiana'', 135659),
      (''Maine'', 91633), (''Maryland'', 32131), (''Massachusetts'', 27336), (''Michigan'', 250487),
      (''Minnesota'', 225163), (''Mississippi'', 125438), (''Missouri'', 180540), (''Montana'', 380831),
      (''Nebraska'', 200330), (''Nevada'', 286380), (''New Hampshire'', 24214), (''New Jersey'', 22591),
      (''New Mexico'', 314917), (''New York'', 141297), (''North Carolina'', 139391),
      (''North Dakota'', 183108), (''Ohio'', 116098), (''Oklahoma'', 181037), (''Oregon'', 254799),
      (''Pennsylvania'', 119280), (''Rhode Island'', 4001), (''South Carolina'', 82933),
      (''South Dakota'', 199729), (''Tennessee'', 109153), (''Texas'', 695662), (''Utah'', 219882),
      (''Vermont'', 24906), (''Virginia'', 110787), (''Washington'', 184661),
      (''West Virginia'', 62756), (''Wisconsin'', 169635), (''Wyoming'', 253335)]"

definition GREENLAND_AREA :: int where
  "GREENLAND_AREA = 2166086"

definition defaultStyle :: path_style where
  "defaultStyle =
     \<lparr>fillColor = ''#1a4670'', weight = 1, opacity = 1, color = ''#0f3460'', fillOpacity = 6 / 10\<rparr>"

definition selectedStyle :: path_style where
  "selectedStyle =
     \<lparr>fillColor = ''#e94560'', weight = 2, opacity = 1, color = ''#ff6b6b'', fillOpacity = 7 / 10\<rparr>"

text \<open>\<^verbatim>\<open>setStyle\<close> merges the given options into the layer's: \<^verbatim>\<open>hoverStyle\<close> and the literal
  of \<^verbatim>\<open>highlightFilteredStates\<close> name four of the five options and leave \<^verbatim>\<open>opacity\<close> as it
  is, so they are modelled by what merging them does.\<close>

definition hoverStyle :: "path_style \<Rightarrow> path_style" where
  "hoverStyle st =
     st\<lparr>fillColor := ''#4cc9f0'', weight := 2, color := ''#4cc9f0'', fillOpacity := 3 / 10\<rparr>"

definition filterStyle :: "path_style \<Rightarrow> path_style" where
  "filterStyle st =
     st\<lparr>fillColor := ''#4cc9f0'', weight := 2, color := ''#4cc9f0'', fillOpacity := 4 / 10\<rparr>"

text \<open>The text \<^verbatim>\<open>' km\u00B2'\<close> of \<^verbatim>\<open>app.js\<close>: a space, km and the superscript two, whose
  UTF-8 encoding is the two bytes 194 and 178.\<close>

definition km2 :: string where
  "km2 = '' km'' @ [char_of (194::nat), char_of (178::nat)]"

subsection \<open>Strings and arrays as JavaScript has them\<close>

text \<open>A string is the sequence of its UTF-8 bytes; one well-formed string occurs in another as
  a sequence of code units exactly when it does as a sequence of bytes.\<close>

text \<open>\<^verbatim>\<open>String.prototype.toLowerCase\<close> and \<^verbatim>\<open>String.prototype.trim\<close> belong to the JavaScript
  engine, not to the repository: case mapping and white space follow the Unicode tables. They are
  parameters of the functions that call them, so that what is proved holds for whatever the engine
  computes.\<close>

record js_builtins =
  toLowerCase :: "string \<Rightarrow> string"
  trim :: "string \<Rightarrow> string"

text \<open>The two built-ins on ASCII text, where the engine's case mapping is the shift of the
  capital letters and its white space is tab, line feed, vertical tab, form feed, carriage return
  and space. They serve to run the sample page.\<close>

definition ascii_lower_char :: "char \<Rightarrow> char" where
  "ascii_lower_char c =
     (let n = (of_char c :: nat) in if 65 \<le> n \<and> n \<le> 90 then char_of (n + 32) else c)"

definition ascii_space :: "char \<Rightarrow> bool" where
  "ascii_space c = (let n = (of_char c :: nat) in (9 \<le> n \<and> n \<le> 13) \<or> n = 32)"

definition ascii_builtins :: js_builtins where
  "ascii_builtins =
     \<lparr>toLowerCase = map ascii_lower_char,
      trim = (\<lambda>str. rev (dropWhile ascii_space (rev (dropWhile ascii_space str))))\<rparr>"

fun starts_with :: "string \<Rightarrow> string \<Rightarrow> bool" where
  "starts_with str [] = True"
| "starts_with [] (d # ds) = False"
| "starts_with (c # cs) (d # ds) = (c = d \<and> starts_with cs ds)"

text \<open>\<^verbatim>\<open>String.prototype.includes\<close>: the needle occurs somewhere in the string.\<close>

fun str_includes :: "string \<Rightarrow> string \<Rightarrow> bool" where
  "str_includes [] needle = (needle = [])"
| "str_includes (c # cs) needle = (starts_with (c # cs) needle \<or> str_includes cs needle)"

text \<open>\<^verbatim>\<open>Array.prototype.join\<close>.\<close>

fun join :: "string \<Rightarrow> string list \<Rightarrow> string" where
  "join sep [] = []"
| "join sep [x] = x"
| "join sep (x # y # ys) = x @ sep @ join sep (y # ys)"

text \<open>\<^verbatim>\<open>Array.prototype.every\<close> with a callback that can throw: the elements are tried in order
  up to the first that fails or throws (\<open>None\<close>).\<close>

fun every :: "('a \<Rightarrow> bool option) \<Rightarrow> 'a list \<Rightarrow> bool option" where
  "every p [] = Some True"
| "every p (x # xs) =
     (case p x of None \<Rightarrow> None | Some b \<Rightarrow> if b then every p xs else Some False)"

text \<open>\<^verbatim>\<open>Array.prototype.filter\<close> with a callback that can throw: the call throws (\<open>None\<close>) when
  the callback throws on some element.\<close>

fun filter_throwing :: "('a \<Rightarrow> bool option) \<Rightarrow> 'a list \<Rightarrow> 'a list option" where
  "filter_throwing p [] = Some []"
| "filter_throwing p (x # xs) =
     (case p x of
        None \<Rightarrow> None
      | Some b \<Rightarrow>
          (case filter_throwing p xs of
             None \<Rightarrow> None
           | Some rest \<Rightarrow> Some (if b then x # rest else rest)))"

text \<open>The elements of an array with their indices, as the callbacks of \<^verbatim>\<open>filter\<close> and
  \<^verbatim>\<open>forEach\<close> see them. The combinations are distinct objects, so
  \<^verbatim>\<open>combinations.indexOf(combo)\<close> is the index the object was found at, also when two
  combinations have the same content; for an element that is not an object the index is not used,
  since \<^verbatim>\<open>createComboItem\<close> throws on it.\<close>

definition indexed :: "'a list \<Rightarrow> (nat \<times> 'a) list" where
  "indexed xs = zip [0 ..< length xs] xs"

text \<open>\<^verbatim>\<open>document.querySelector\<close> changes the first element that matches, if there is one.\<close>

fun update_first :: "('a \<Rightarrow> bool) \<Rightarrow> ('a \<Rightarrow> 'a) \<Rightarrow> 'a list \<Rightarrow> 'a list" where
  "update_first p f [] = []"
| "update_first p f (x # xs) = (if p x then f x # xs else x # update_first p f xs)"

text \<open>A case mapping beyond ASCII, to run the sample page on such a query: the Kelvin sign
  (U+212A, the bytes 226, 132, 170) is lower-cased to the letter k, as the Unicode tables have
  it; ASCII is mapped as above.\<close>

fun lower_with_kelvin :: "string \<Rightarrow> string" where
  "lower_with_kelvin [] = []"
| "lower_with_kelvin (c # cs) =
     (if of_char c = (226::nat) \<and> map of_char (take 2 cs) = [132, 170::nat]
      then CHR ''k'' # lower_with_kelvin (drop 2 cs)
      else ascii_lower_char c # lower_with_kelvin cs)"

definition kelvin_builtins :: js_builtins where
  "kelvin_builtins = ascii_builtins\<lparr>toLowerCase := lower_with_kelvin\<rparr>"

definition kelvin_sign :: string where
  "kelvin_sign = map char_of [226, 132, 170 :: nat]"

subsection \<open>Reading the loaded data\<close>

text \<open>\<^verbatim>\<open>combinationsData.combinations\<close> as an array: \<open>None\<close> while nothing is loaded and when
  the member is not an array. In every run of the page the reads \<^verbatim>\<open>.filter\<close> and \<^verbatim>\<open>[idx]\<close>
  then end in a \<^verbatim>\<open>TypeError\<close>: \<^verbatim>\<open>filter\<close> throws at once, and \<^verbatim>\<open>[idx]\<close> is reached only from a
  row or with a selection, which exist only after \<^verbatim>\<open>filter\<close> has succeeded.\<close>

definition the_entries :: "viewer \<Rightarrow> entry list option" where
  "the_entries s =
     (case combinationsData s of
        None \<Rightarrow> None
      | Some d \<Rightarrow>
          (case combinations d of
             Entries es \<Rightarrow> Some es
           | NoList \<Rightarrow> None
           | NotArray len \<Rightarrow> None))"

text \<open>The loaded combinations when every element is a combination as the enumerator writes
  it.\<close>

definition the_combinations :: "viewer \<Rightarrow> combo list option" where
  "the_combinations s =
     (case the_entries s of
        None \<Rightarrow> None
      | Some es \<Rightarrow> those (map as_combo es))"

text \<open>\<^verbatim>\<open>combinationsData.combinations[i]\<close>: an index out of range gives \<^verbatim>\<open>undefined\<close>.\<close>

definition entry_at :: "viewer \<Rightarrow> nat \<Rightarrow> entry option" where
  "entry_at s i =
     (case the_entries s of
        None \<Rightarrow> None
      | Some es \<Rightarrow> Some (if i < length es then es ! i else undefined_entry))"


text \<open>\<^verbatim>\<open>combo.states.includes(stateName)\<close>; \<open>None\<close> when it throws.\<close>

definition entry_includes :: "entry \<Rightarrow> state_name \<Rightarrow> bool option" where
  "entry_includes e stateName =
     (case entry_states e of
        NoStates \<Rightarrow> None
      | StateList xs \<Rightarrow> Some (stateName \<in> set xs)
      | StateText t \<Rightarrow> Some (str_includes t stateName)
      | StateOther \<Rightarrow> None)"

subsection \<open>Map layers\<close>

text \<open>\<^verbatim>\<open>layer.setStyle(options)\<close> on the layer at position \<open>i\<close> of \<^verbatim>\<open>statesLayer\<close>;
  \<^verbatim>\<open>layer.bringToFront()\<close> moves it to the end of the paint order.\<close>

definition setStyle :: "nat \<Rightarrow> (path_style \<Rightarrow> path_style) \<Rightarrow> layer list \<Rightarrow> layer list" where
  "setStyle i upd ls =
     (if i < length ls then ls[i := (ls ! i)\<lparr>layer_style := upd (layer_style (ls ! i))\<rparr>] else ls)"

definition bringToFront :: "nat \<Rightarrow> nat list \<Rightarrow> nat list" where
  "bringToFront i order = filter (\<lambda>j. j \<noteq> i) order @ [i]"

text \<open>The guard that opens \<^verbatim>\<open>handleStateHover\<close> and \<^verbatim>\<open>handleStateOut\<close>: with a selection, whether
  the state is in the selected combination (\<open>None\<close> when reading it throws); without, no.\<close>

definition in_selected_combo :: "viewer \<Rightarrow> state_name \<Rightarrow> bool option" where
  "in_selected_combo s stateName =
     (case selectedComboIndex s of
        None \<Rightarrow> Some False
      | Some k \<Rightarrow>
          (case entry_at s k of
             None \<Rightarrow> None
           | Some combo \<Rightarrow> entry_includes combo stateName))"

text \<open>\<^verbatim>\<open>handleStateHover(e)\<close>, for the layer at position \<open>i\<close>. The event only fires on a layer
  of \<^verbatim>\<open>statesLayer\<close>; for any other \<open>i\<close> nothing happens.\<close>

definition handleStateHover :: "nat \<Rightarrow> viewer \<Rightarrow> outcome" where
  "handleStateHover i s =
     (case statesLayer s of
        None \<Rightarrow> ok s
      | Some ls \<Rightarrow>
          if \<not> i < length ls then ok s
          else
            (case in_selected_combo s (layer_name (ls ! i)) of
               None \<Rightarrow> throw TypeError s
             | Some member \<Rightarrow>
                 if member then ok s
                 else ok (s\<lparr>statesLayer := Some (setStyle i hoverStyle ls),
                            paint_order := bringToFront i (paint_order s)\<rparr>)))"

text \<open>\<^verbatim>\<open>handleStateOut(e)\<close>.\<close>

definition handleStateOut :: "nat \<Rightarrow> viewer \<Rightarrow> outcome" where
  "handleStateOut i s =
     (case statesLayer s of
        None \<Rightarrow> ok s
      | Some ls \<Rightarrow>
          if \<not> i < length ls then ok s
          else
            (case in_selected_combo s (layer_name (ls ! i)) of
               None \<Rightarrow> throw TypeError s
             | Some member \<Rightarrow>
                 if member then ok s
                 else ok (s\<lparr>statesLayer := Some (setStyle i (\<lambda>st. defaultStyle) ls)\<rparr>)))"

subsection \<open>The combination list\<close>

text \<open>The callback of \<^verbatim>\<open>combinationsData.combinations.filter\<close> in \<^verbatim>\<open>renderCombinations\<close>, on
  a combination whose \<^verbatim>\<open>states\<close> is a list.\<close>

definition passes_filter :: "state_name list \<Rightarrow> combo \<Rightarrow> bool" where
  "passes_filter selected combo =
     (if length selected = 0 then True
      else list_all (\<lambda>state. state \<in> set (states combo)) selected)"

definition filtered_combinations :: "state_name list \<Rightarrow> combo list \<Rightarrow> (nat \<times> combo) list" where
  "filtered_combinations selected cs =
     filter (\<lambda>x. passes_filter selected (snd x)) (indexed cs)"

text \<open>The same callback on any element of the array: with an empty filter the element is not
  read; otherwise \<^verbatim>\<open>selectedStates.every(state => combo.states.includes(state))\<close>, which throws
  when \<^verbatim>\<open>includes\<close> does.\<close>

definition entry_passes :: "state_name list \<Rightarrow> entry \<Rightarrow> bool option" where
  "entry_passes selected combo =
     (if length selected = 0 then Some True
      else every (entry_includes combo) selected)"

text \<open>\<^verbatim>\<open>createComboItem(combo, idx)\<close>; the template reads \<^verbatim>\<open>combo.states.length\<close>,
  \<^verbatim>\<open>combo.total_km2.toLocaleString()\<close> and \<^verbatim>\<open>combo.states.join(', ')\<close> in this order, and the
  first that throws ends the call (\<open>None\<close>). The click listener it adds is the event
  \<open>ComboClick\<close> below.\<close>

definition createComboItem :: "viewer \<Rightarrow> entry \<Rightarrow> nat \<Rightarrow> combo_item option" where
  "createComboItem s combo idx =
     (case entry_states combo of
        NoStates \<Rightarrow> None
      | StateText t \<Rightarrow> None
      | StateOther \<Rightarrow> None
      | StateList xs \<Rightarrow>
          (case entry_total combo of
             None \<Rightarrow> None
           | Some tot \<Rightarrow>
               Some \<lparr>item_index = idx,
                     item_selected = (Some idx = selectedComboIndex s),
                     item_count = [Dec (int (length xs)), Str '' states''],
                     item_area = [shown_piece tot, Str km2],
                     item_states = join '', '' xs\<rparr>))"

text \<open>The row \<^verbatim>\<open>createComboItem\<close> builds for a combination as the enumerator writes it.\<close>

definition combo_row :: "viewer \<Rightarrow> combo \<Rightarrow> nat \<Rightarrow> combo_item" where
  "combo_row s combo idx =
     \<lparr>item_index = idx,
      item_selected = (Some idx = selectedComboIndex s),
      item_count = [Dec (int (length (states combo))), Str '' states''],
      item_area = [Loc (total_km2 combo), Str km2],
      item_states = join '', '' (states combo)\<rparr>"

text \<open>The loop \<^verbatim>\<open>toRender.forEach\<close>: the rows are appended one by one; when
  \<^verbatim>\<open>createComboItem\<close> throws, the rows appended before stay and the loop ends. The result is
  the rows in the container and whether the loop came to its end.\<close>

fun append_rows :: "viewer \<Rightarrow> (nat \<times> entry) list \<Rightarrow> combo_item list \<times> bool" where
  "append_rows s [] = ([], True)"
| "append_rows s (x # xs) =
     (case createComboItem s (snd x) (fst x) of
        None \<Rightarrow> ([], False)
      | Some item \<Rightarrow> (item # fst (append_rows s xs), snd (append_rows s xs)))"

text \<open>\<^verbatim>\<open>renderCombinations()\<close>. The container is emptied first; \<^verbatim>\<open>filter\<close> throws when the
  combinations are not an array or its callback throws; the header is written after the rows.\<close>

definition renderCombinations :: "viewer \<Rightarrow> outcome" where
  "renderCombinations s =
     (let s1 = s\<lparr>combinations_list := []\<rparr> in
      case the_entries s1 of
        None \<Rightarrow> throw TypeError s1
      | Some es \<Rightarrow>
          (case filter_throwing (\<lambda>x. entry_passes (selectedStates s1) (snd x)) (indexed es) of
             None \<Rightarrow> throw TypeError s1
           | Some filtered \<Rightarrow>
               let toRender = take (min (length filtered) 500) filtered;
                   rows = append_rows s1 toRender;
                   filterText = (if length (selectedStates s1) > 0
                                 then '' containing '' @ join '', '' (selectedStates s1) else [])
               in if snd rows
                  then ok (s1\<lparr>combinations_list := fst rows,
                            list_header := [Loc (int (length filtered)),
                                            Str ('' combinations'' @ filterText)]\<rparr>)
                  else throw TypeError (s1\<lparr>combinations_list := fst rows\<rparr>)))"

subsection \<open>Styles of all layers\<close>

text \<open>\<^verbatim>\<open>resetMapStyles()\<close>; \<^verbatim>\<open>statesLayer.eachLayer\<close> throws while \<^verbatim>\<open>statesLayer\<close> is
  undefined.\<close>

definition resetMapStyles :: "viewer \<Rightarrow> outcome" where
  "resetMapStyles s =
     (case statesLayer s of
        None \<Rightarrow> throw TypeError s
      | Some ls \<Rightarrow> ok (s\<lparr>statesLayer := Some (map (\<lambda>l. l\<lparr>layer_style := defaultStyle\<rparr>) ls)\<rparr>))"

text \<open>\<^verbatim>\<open>highlightFilteredStates()\<close>.\<close>

definition highlightFilteredStates :: "viewer \<Rightarrow> outcome" where
  "highlightFilteredStates s =
     (case statesLayer s of
        None \<Rightarrow> throw TypeError s
      | Some ls \<Rightarrow>
          ok (s\<lparr>statesLayer :=
                  Some (map (\<lambda>l. if layer_name l \<in> set (selectedStates s)
                                  then l\<lparr>layer_style := filterStyle (layer_style l)\<rparr>
                                  else if selectedComboIndex s = None
                                  then l\<lparr>layer_style := defaultStyle\<rparr>
                                  else l) ls)\<rparr>))"

subsection \<open>The filter\<close>

text \<open>\<^verbatim>\<open>updateFilterTotal()\<close>; \<^verbatim>\<open>stateAreas[state] || 0\<close> is 0 for a name the table lacks.\<close>

definition updateFilterTotal :: "viewer \<Rightarrow> viewer" where
  "updateFilterTotal s =
     (if length (selectedStates s) = 0 then s\<lparr>filter_total_hidden := True\<rparr>
      else
        let total = fold (\<lambda>state sum. sum + (case map_of stateAreas state of None \<Rightarrow> 0 | Some a \<Rightarrow> a))
                      (selectedStates s) 0;
            remaining = GREENLAND_AREA - total
        in s\<lparr>filter_total_hidden := False,
              filter_total :=
                (if remaining > 0
                 then [Loc total, Str km2, Str '' selected ('', Fixed1 total GREENLAND_AREA,
                       Str ''% of Greenland, '', Loc remaining, Str km2, Str '' remaining)'']
                 else [Loc total, Str km2, Str '' selected ('', Fixed1 total GREENLAND_AREA,
                       Str ''% of Greenland)''])\<rparr>)"

text \<open>\<^verbatim>\<open>renderFilterTags()\<close>: one tag for each selected state; the button of a tag is the event
  \<open>TagClick state\<close> below.\<close>

definition renderFilterTags :: "viewer \<Rightarrow> viewer" where
  "renderFilterTags s = updateFilterTotal (s\<lparr>selected_filters := selectedStates s\<rparr>)"

text \<open>\<^verbatim>\<open>hideDropdown()\<close>.\<close>

definition hideDropdown :: "viewer \<Rightarrow> viewer" where
  "hideDropdown s = s\<lparr>search_dropdown_hidden := True, highlightedIndex := - 1\<rparr>"

text \<open>The three calls that follow every change of the filter: \<^verbatim>\<open>renderFilterTags()\<close>,
  \<^verbatim>\<open>renderCombinations()\<close>, \<^verbatim>\<open>highlightFilteredStates()\<close>.\<close>

definition refresh_filter :: "viewer \<Rightarrow> outcome" where
  "refresh_filter s = and_then (renderCombinations (renderFilterTags s)) highlightFilteredStates"

text \<open>\<^verbatim>\<open>addStateFilter(stateName)\<close>.\<close>

definition addStateFilter :: "state_name \<Rightarrow> viewer \<Rightarrow> outcome" where
  "addStateFilter stateName s =
     and_then
       (if stateName \<notin> set (selectedStates s)
        then refresh_filter (s\<lparr>selectedStates := selectedStates s @ [stateName]\<rparr>)
        else ok s)
       (\<lambda>s1. ok (hideDropdown (s1\<lparr>state_search := []\<rparr>)))"

text \<open>\<^verbatim>\<open>removeStateFilter(stateName)\<close>.\<close>

definition removeStateFilter :: "state_name \<Rightarrow> viewer \<Rightarrow> outcome" where
  "removeStateFilter stateName s =
     refresh_filter (s\<lparr>selectedStates := filter (\<lambda>x. x \<noteq> stateName) (selectedStates s)\<rparr>)"

text \<open>The click listener of \<^verbatim>\<open>#clear-search\<close>.\<close>

definition clearFilters :: "viewer \<Rightarrow> outcome" where
  "clearFilters s = refresh_filter (s\<lparr>state_search := [], selectedStates := []\<rparr>)"

text \<open>\<^verbatim>\<open>handleStateClick(e)\<close>, for the layer at position \<open>i\<close>.\<close>

definition handleStateClick :: "nat \<Rightarrow> viewer \<Rightarrow> outcome" where
  "handleStateClick i s =
     (case statesLayer s of
        None \<Rightarrow> ok s
      | Some ls \<Rightarrow> if i < length ls then addStateFilter (layer_name (ls ! i)) s else ok s)"

subsection \<open>The typeahead\<close>

text \<open>The items of the dropdown, each highlighted when its position is \<^verbatim>\<open>highlightedIndex\<close>.\<close>

definition dropdown_of :: "int \<Rightarrow> string list \<Rightarrow> dropdown_item list" where
  "dropdown_of hi names =
     map (\<lambda>x. \<lparr>item_name = snd x, item_highlighted = (int (fst x) = hi)\<rparr>) (indexed names)"

text \<open>The matches \<^verbatim>\<open>showDropdown\<close> computes:
  \<^verbatim>\<open>name.toLowerCase().includes(query.toLowerCase()) && !selectedStates.includes(name)\<close>.\<close>

definition matches :: "js_builtins \<Rightarrow> viewer \<Rightarrow> string \<Rightarrow> state_name list" where
  "matches js s query =
     filter (\<lambda>name. str_includes (toLowerCase js name) (toLowerCase js query)
                    \<and> name \<notin> set (selectedStates s))
       (allStateNames s)"

text \<open>\<^verbatim>\<open>showDropdown(query)\<close>. Hiding leaves the items of the last display in the page.\<close>

definition showDropdown :: "js_builtins \<Rightarrow> string \<Rightarrow> viewer \<Rightarrow> viewer" where
  "showDropdown js query s =
     (if length (matches js s query) = 0 \<or> query = [] then hideDropdown s
      else s\<lparr>search_dropdown := dropdown_of (highlightedIndex s) (take 8 (matches js s query)),
              search_dropdown_hidden := False\<rparr>)"

text \<open>\<^verbatim>\<open>updateDropdownHighlight()\<close>.\<close>

definition updateDropdownHighlight :: "viewer \<Rightarrow> viewer" where
  "updateDropdownHighlight s =
     s\<lparr>search_dropdown := dropdown_of (highlightedIndex s) (map item_name (search_dropdown s))\<rparr>"

text \<open>What the user sees in the dropdown: nothing while it is hidden.\<close>

definition displayed_entries :: "viewer \<Rightarrow> string list" where
  "displayed_entries s =
     (if search_dropdown_hidden s then [] else map item_name (search_dropdown s))"


subsection \<open>Selecting a combination\<close>

text \<open>The click listener of a mobile tab (\<^verbatim>\<open>setupEventListeners\<close>); \<^verbatim>\<open>map.invalidateSize()\<close>
  changes nothing that is modelled.\<close>

definition tabClick :: "string \<Rightarrow> viewer \<Rightarrow> viewer" where
  "tabClick view s =
     (if view = ''list''
      then s\<lparr>active_tab := view, sidebar_hidden := False, map_container_hidden := True\<rparr>
      else s\<lparr>active_tab := view, sidebar_hidden := True, map_container_hidden := False\<rparr>)"

text \<open>\<^verbatim>\<open>prevItem.classList.remove('selected')\<close> and \<^verbatim>\<open>currentItem.classList.add('selected')\<close>
  on the item found by its \<^verbatim>\<open>data-index\<close>.\<close>

definition mark_item :: "nat \<Rightarrow> bool \<Rightarrow> combo_item list \<Rightarrow> combo_item list" where
  "mark_item idx b items =
     update_first (\<lambda>it. item_index it = idx) (\<lambda>it. it\<lparr>item_selected := b\<rparr>) items"

definition unmark_previous :: "viewer \<Rightarrow> viewer" where
  "unmark_previous s =
     (case selectedComboIndex s of
        None \<Rightarrow> s
      | Some k \<Rightarrow> s\<lparr>combinations_list := mark_item k False (combinations_list s)\<rparr>)"

text \<open>The positions of the layers whose state passes a test.\<close>

definition member_layers :: "(state_name \<Rightarrow> bool) \<Rightarrow> layer list \<Rightarrow> nat list" where
  "member_layers inc ls = filter (\<lambda>i. inc (layer_name (ls ! i))) [0 ..< length ls]"

text \<open>The middle of \<^verbatim>\<open>selectCombination\<close>, once \<^verbatim>\<open>combo.states.includes\<close> is known not to
  throw: the layers of the combination get \<^verbatim>\<open>selectedStyle\<close> and come to the front, its row is
  marked and the panel is made visible.\<close>

definition highlight_members :: "(state_name \<Rightarrow> bool) \<Rightarrow> nat \<Rightarrow> layer list \<Rightarrow> viewer \<Rightarrow> viewer" where
  "highlight_members inc idx ls t =
     t\<lparr>statesLayer :=
         Some (map (\<lambda>l. if inc (layer_name l) then l\<lparr>layer_style := selectedStyle\<rparr> else l) ls),
       paint_order := fold bringToFront (member_layers inc ls) (paint_order t),
       combinations_list := mark_item idx True (combinations_list t),
       selected_info_hidden := False\<rparr>"

text \<open>The end of \<^verbatim>\<open>selectCombination\<close>: when some layer is selected the map is fitted to the
  selected layers (by a timer 100 ms later; its effect is recorded at once), and on a narrow
  window the map tab is clicked first, which runs its listener when the listeners are installed.\<close>

definition fit_selected :: "nat list \<Rightarrow> viewer \<Rightarrow> viewer" where
  "fit_selected members t =
     (if length members > 0
      then (if innerWidth t \<le> 768 \<and> listeners_installed t then tabClick ''map'' t else t)
             \<lparr>map_view := FitLayers members\<rparr>
      else t)"

text \<open>\<^verbatim>\<open>selectCombination(idx)\<close> from the assignment of \<^verbatim>\<open>selectedComboIndex\<close> on. The reads
  of the combination come in this order: \<^verbatim>\<open>combo.states.includes\<close> in the callback of the first
  layer (not at all when there is no layer), \<^verbatim>\<open>combo.states.join\<close> after the row was marked and
  the panel made visible, \<^verbatim>\<open>combo.total_km2.toLocaleString()\<close> after the states were written.
  An index that names no element gives \<^verbatim>\<open>undefined\<close>, on which the first of these reads
  throws.\<close>

definition select_new :: "nat \<Rightarrow> viewer \<Rightarrow> outcome" where
  "select_new idx t =
     (let t1 = t\<lparr>selectedComboIndex := Some idx\<rparr> in
      case entry_at t1 idx of
        None \<Rightarrow> throw TypeError t1
      | Some combo \<Rightarrow>
          (case statesLayer t1 of
             None \<Rightarrow> throw TypeError t1
           | Some ls \<Rightarrow>
               if ls \<noteq> [] \<and> entry_includes combo (layer_name (hd ls)) = None
               then throw TypeError t1
               else
                 let inc = (\<lambda>name. entry_includes combo name = Some True);
                     t2 = highlight_members inc idx ls t1
                 in (case entry_states combo of
                       StateList xs \<Rightarrow>
                         let t3 = t2\<lparr>selected_states_text := join '', '' xs\<rparr> in
                         (case entry_total combo of
                            None \<Rightarrow> throw TypeError t3
                          | Some tot \<Rightarrow>
                              ok (fit_selected (member_layers inc ls)
                                    (t3\<lparr>selected_area_text := [shown_piece tot, Str km2]\<rparr>)))
                     | NoStates \<Rightarrow> throw TypeError t2
                     | StateText txt \<Rightarrow> throw TypeError t2
                     | StateOther \<Rightarrow> throw TypeError t2)))"


text \<open>\<^verbatim>\<open>selectCombination(idx)\<close>: the previous selection, if any, is undone first.\<close>

definition selectCombination :: "nat \<Rightarrow> viewer \<Rightarrow> outcome" where
  "selectCombination idx s =
     and_then
       (if selectedComboIndex s \<noteq> None
        then and_then (resetMapStyles s) (\<lambda>t. ok (unmark_previous t))
        else ok s)
       (select_new idx)"

text \<open>\<^verbatim>\<open>clearSelection()\<close>.\<close>

definition clearSelection :: "viewer \<Rightarrow> outcome" where
  "clearSelection s =
     and_then (resetMapStyles ((unmark_previous s)\<lparr>selectedComboIndex := None\<rparr>))
       (\<lambda>t. and_then (highlightFilteredStates t)
          (\<lambda>u. ok (u\<lparr>selected_info_hidden := True, map_view := FitAll\<rparr>)))"

subsection \<open>Loading and start-up\<close>

text \<open>\<^verbatim>\<open>initMap()\<close>.\<close>

definition initMap :: "viewer \<Rightarrow> viewer" where
  "initMap s = s\<lparr>map_created := True, map_view := InitialView\<rparr>"

text \<open>\<^verbatim>\<open>loadStatesGeoJSON()\<close>, given what the fetch gives.\<close>

definition loadStatesGeoJSON :: "geo_json fetched \<Rightarrow> viewer \<Rightarrow> outcome" where
  "loadStatesGeoJSON response s =
     (case response of
        FetchFailed \<Rightarrow> throw TypeError s
      | NotJSON \<Rightarrow> throw SyntaxError s
      | Parsed g \<Rightarrow> ok (s\<lparr>statesGeoJSON := Some g\<rparr>))"

text \<open>\<^verbatim>\<open>loadCombinations()\<close>, given what the fetch gives. The global is assigned before the two
  statistics are written, and each statistic reads a member that may be absent or of another
  kind than expected.\<close>

definition loadCombinations :: "combinations_file fetched \<Rightarrow> viewer \<Rightarrow> outcome" where
  "loadCombinations response s =
     (case response of
        FetchFailed \<Rightarrow> throw TypeError s
      | NotJSON \<Rightarrow> throw SyntaxError s
      | Parsed d \<Rightarrow>
          let s1 = s\<lparr>combinationsData := Some d\<rparr> in
          (case greenland_km2 d of
             None \<Rightarrow> throw TypeError s1
           | Some g \<Rightarrow>
               let s2 = s1\<lparr>greenland_area_text := [shown_piece g, Str km2]\<rparr> in
               (case combinations d of
                  NoList \<Rightarrow> throw TypeError s2
                | NotArray len \<Rightarrow> ok (s2\<lparr>combo_count_text := [shown_piece len]\<rparr>)
                | Entries es \<Rightarrow> ok (s2\<lparr>combo_count_text := [Loc (int (length es))]\<rparr>))))"

text \<open>The filter of \<^verbatim>\<open>renderStates\<close> followed by \<^verbatim>\<open>.map(f => f.properties.name)\<close>: the lower
  48 are the features not named Alaska, Hawaii, Puerto Rico or District of Columbia; the callback
  throws (\<open>None\<close>) on a feature without \<^verbatim>\<open>properties\<close>.\<close>

fun lower48 :: "feature list \<Rightarrow> state_name list option" where
  "lower48 [] = Some []"
| "lower48 (BadFeature # fs) = None"
| "lower48 (Named name # fs) =
     (case lower48 fs of
        None \<Rightarrow> None
      | Some rest \<Rightarrow>
          Some (if name \<noteq> ''Alaska'' \<and> name \<noteq> ''Hawaii''
                   \<and> name \<noteq> ''Puerto Rico'' \<and> name \<noteq> ''District of Columbia''
                then name # rest else rest))"

text \<open>\<^verbatim>\<open>renderStates()\<close>; \<^verbatim>\<open>sort()\<close> orders the names by their code units. Every layer starts
  with \<^verbatim>\<open>defaultStyle\<close>, which sets all five options. The map widget is a library outside the
  repository and is taken to accept every call.\<close>

definition renderStates :: "viewer \<Rightarrow> outcome" where
  "renderStates s =
     (case statesGeoJSON s of
        None \<Rightarrow> throw TypeError s
      | Some g \<Rightarrow>
          (case features g of
             NoFeatures \<Rightarrow> throw TypeError s
           | Features fs \<Rightarrow>
               (case lower48 fs of
                  None \<Rightarrow> throw TypeError s
                | Some names \<Rightarrow>
                    ok (s\<lparr>allStateNames := sort names,
                          statesLayer := Some (map (\<lambda>name. \<lparr>layer_name = name, layer_style = defaultStyle\<rparr>)
                                                 names),
                          paint_order := [0 ..< length names],
                          map_view := FitAll\<rparr>))))"


text \<open>\<^verbatim>\<open>setupEventListeners()\<close>: from now on the events of the search box, the buttons and the
  tabs are handled.\<close>

definition setupEventListeners :: "viewer \<Rightarrow> viewer" where
  "setupEventListeners s = s\<lparr>listeners_installed := True\<rparr>"

text \<open>\<^verbatim>\<open>init()\<close>. Both loads are started and \<^verbatim>\<open>Promise.all\<close> is awaited: each load runs to its
  end, they write different fields, and \<^verbatim>\<open>init\<close> continues only when neither rejected. When both
  reject, \<open>geo_first\<close> says which rejection came first and is the one \<^verbatim>\<open>init\<close> ends with. Nothing
  catches it.\<close>

definition init :: "bool \<Rightarrow> geo_json fetched \<Rightarrow> combinations_file fetched \<Rightarrow> viewer \<Rightarrow> outcome" where
  "init geo_first geo_response combo_response s =
     (let s1 = (if innerWidth s \<le> 768 then s\<lparr>map_container_hidden := True\<rparr> else s);
          s2 = initMap s1;
          r1 = loadStatesGeoJSON geo_response s2;
          r2 = loadCombinations combo_response (fst r1)
      in case (snd r1, snd r2) of
           (None, None) \<Rightarrow>
             and_then (renderStates (fst r2))
               (\<lambda>t. and_then (renderCombinations t) (\<lambda>u. ok (setupEventListeners u)))
         | (Some e1, None) \<Rightarrow> (fst r2, Some e1)
         | (None, Some e2) \<Rightarrow> (fst r2, Some e2)
         | (Some e1, Some e2) \<Rightarrow> (fst r2, Some (if geo_first then e1 else e2)))"

subsection \<open>Events\<close>

datatype key = ArrowDown | ArrowUp | Enter | Escape | OtherKey

text \<open>The \<^verbatim>\<open>keydown\<close> listener of the search box. \<^verbatim>\<open>querySelectorAll('.dropdown-item')\<close> finds
  the items in the page whether or not the dropdown is hidden; \<^verbatim>\<open>items[highlightedIndex]\<close> beyond
  the last item is undefined and reading its text throws.\<close>

definition keydown :: "key \<Rightarrow> viewer \<Rightarrow> outcome" where
  "keydown k s =
     (let items = search_dropdown s in
      if length items = 0 then ok s
      else case k of
        ArrowDown \<Rightarrow>
          ok (updateDropdownHighlight
                (s\<lparr>highlightedIndex := min (highlightedIndex s + 1) (int (length items) - 1)\<rparr>))
      | ArrowUp \<Rightarrow>
          ok (updateDropdownHighlight
                (s\<lparr>highlightedIndex := max (highlightedIndex s - 1) 0\<rparr>))
      | Enter \<Rightarrow>
          if highlightedIndex s \<ge> 0
          then (if nat (highlightedIndex s) < length items
                then addStateFilter (item_name (items ! nat (highlightedIndex s))) s
                else throw TypeError s)
          else ok s
      | Escape \<Rightarrow> ok (hideDropdown s)
      | OtherKey \<Rightarrow> ok s)"

text \<open>The \<^verbatim>\<open>input\<close> listener (the box holds what was typed) and the \<^verbatim>\<open>focus\<close> listener. The
  \<^verbatim>\<open>blur\<close> listener hides the dropdown by a timer 150 ms later; its effect is recorded at once.\<close>

definition search_input :: "js_builtins \<Rightarrow> string \<Rightarrow> viewer \<Rightarrow> viewer" where
  "search_input js typed s =
     showDropdown js (trim js typed) (s\<lparr>state_search := typed, highlightedIndex := - 1\<rparr>)"

definition search_focus :: "js_builtins \<Rightarrow> viewer \<Rightarrow> viewer" where
  "search_focus js s =
     (if trim js (state_search s) \<noteq> [] then showDropdown js (trim js (state_search s)) s else s)"

text \<open>What the user can do. A position names an element of the page: a layer of the map, a row of
  the combination list, a tag of the filter, an item of the dropdown; an event on an element that
  does not exist does not happen. The listeners that \<^verbatim>\<open>setupEventListeners\<close> installs answer only
  once it has run.\<close>

datatype event =
    LayerOver nat | LayerOut nat | LayerClick nat
  | ComboClick nat | TagClick nat
  | DropdownClick nat | DropdownEnter nat
  | SearchInput string | KeyDown key | SearchBlur | SearchFocus
  | ClearSearch | ClearSelection | TabClick string

definition dispatch :: "js_builtins \<Rightarrow> event \<Rightarrow> viewer \<Rightarrow> outcome" where
  "dispatch js ev s =
     (case ev of
        LayerOver i \<Rightarrow> handleStateHover i s
      | LayerOut i \<Rightarrow> handleStateOut i s
      | LayerClick i \<Rightarrow> handleStateClick i s
      | ComboClick k \<Rightarrow>
          if k < length (combinations_list s)
          then selectCombination (item_index (combinations_list s ! k)) s else ok s
      | TagClick k \<Rightarrow>
          if k < length (selected_filters s)
          then removeStateFilter (selected_filters s ! k) s else ok s
      | DropdownClick k \<Rightarrow>
          if k < length (search_dropdown s)
          then addStateFilter (item_name (search_dropdown s ! k)) s else ok s
      | DropdownEnter k \<Rightarrow>
          if k < length (search_dropdown s)
          then ok (updateDropdownHighlight (s\<lparr>highlightedIndex := int k\<rparr>)) else ok s
      | SearchInput typed \<Rightarrow> if listeners_installed s then ok (search_input js typed s) else ok s
      | KeyDown k \<Rightarrow> if listeners_installed s then keydown k s else ok s
      | SearchBlur \<Rightarrow> if listeners_installed s then ok (hideDropdown s) else ok s
      | SearchFocus \<Rightarrow> if listeners_installed s then ok (search_focus js s) else ok s
      | ClearSearch \<Rightarrow> if listeners_installed s then clearFilters s else ok s
      | ClearSelection \<Rightarrow> if listeners_installed s then clearSelection s else ok s
      | TabClick view \<Rightarrow> if listeners_installed s then ok (tabClick view s) else ok s)"

text \<open>A session: the events one after the other. An uncaught exception ends the listener that
  threw; the page goes on with the state it had reached.\<close>

fun run :: "js_builtins \<Rightarrow> event list \<Rightarrow> viewer \<Rightarrow> viewer" where
  "run js [] s = s"
| "run js (ev # evs) s = run js evs (fst (dispatch js ev s))"

text \<open>The three operations on the filter, and a sequence of them.\<close>

datatype filter_op = Add state_name | Remove state_name | Clear

fun apply_filter_op :: "filter_op \<Rightarrow> viewer \<Rightarrow> viewer" where
  "apply_filter_op (Add x) s = fst (addStateFilter x s)"
| "apply_filter_op (Remove x) s = fst (removeStateFilter x s)"
| "apply_filter_op Clear s = fst (clearFilters s)"

fun apply_filter_ops :: "filter_op list \<Rightarrow> viewer \<Rightarrow> viewer" where
  "apply_filter_ops [] s = s"
| "apply_filter_ops (x # xs) s = apply_filter_ops xs (apply_filter_op x s)"

subsection \<open>Usable data files, and a small page to run\<close>





definition sample_geo :: geo_json where
  "sample_geo =
     \<lparr>features = Features (map Named [''Texas'', ''Alaska'', ''Ohio'', ''Oklahoma'', ''Kansas''])\<rparr>"

definition sample_combos :: "combo list" where
  "sample_combos =
     [\<lparr>states = [''Texas'', ''Oklahoma''], total_km2 = 876699\<rparr>,
      \<lparr>states = [''Kansas'', ''Oklahoma''], total_km2 = 394137\<rparr>]"

definition sample_file :: combinations_file where
  "sample_file =
     \<lparr>greenland_km2 = Some (Number 2166086), combinations = Entries (map entry_of sample_combos)\<rparr>"


text \<open>The page after a start-up on the sample files in a wide window.\<close>

definition sample_viewer :: viewer where
  "sample_viewer = fst (init True (Parsed sample_geo) (Parsed sample_file) (initial_viewer 1024))"


text \<open>The sample page with the filter set to Kansas, and with its first combination selected.\<close>

definition sample_filtered :: viewer where
  "sample_filtered = fst (addStateFilter ''Kansas'' sample_viewer)"






section \<open>Properties of the enumerator\<close>

subsection \<open>Connectivity is executable\<close>

lemma connected_states_code [code]:
  "connected_states g xs =
     (xs \<noteq> [] \<and> list_all (\<lambda>a. list_all (\<lambda>b. a = b \<or> (a, b) \<in> (set (induced g xs))\<^sup>+) xs) xs)"
  by (auto simp: connected_states_def list_all_iff rtrancl_eq_or_trancl)

lemma set_induced:
  "set (induced g xs) = {(a, b). a \<in> set xs \<and> b \<in> set xs \<and> b \<in> set (neighbours g a)}"
  by (auto simp: induced_def)

lemma induced_mono: "set xs \<subseteq> set ys \<Longrightarrow> set (induced g xs) \<subseteq> set (induced g ys)"
  by (auto simp: set_induced)

subsection \<open>Growing a connected set keeps it connected\<close>

lemma connected_singleton: "connected_states g [s]"
  by (simp add: connected_states_def)

lemma connected_grow:
  assumes conn: "connected_states g xs"
    and u: "u \<in> set xs" and uv: "v \<in> set (neighbours g u)" and vu: "u \<in> set (neighbours g v)"
    and ys: "set ys = insert v (set xs)"
  shows "connected_states g ys"
proof -
  let ?R = "(set (induced g ys))\<^sup>*"
  have sub: "(set (induced g xs))\<^sup>* \<subseteq> ?R"
    using ys by (intro rtrancl_mono induced_mono) auto
  have old: "(a, b) \<in> ?R" if "a \<in> set xs" "b \<in> set xs" for a b
    using conn that sub by (auto simp: connected_states_def)
  have e1: "(u, v) \<in> ?R" and e2: "(v, u) \<in> ?R"
    using u uv vu ys by (auto simp: set_induced)
  have "(a, b) \<in> ?R" if a: "a \<in> set ys" and b: "b \<in> set ys" for a b
  proof -
    have au: "(a, u) \<in> ?R"
      using a ys e2 old[OF _ u] by auto
    have ub: "(u, b) \<in> ?R"
      using b ys e1 old[OF u] by auto
    from au ub show ?thesis by (rule rtrancl_trans)
  qed
  moreover have "ys \<noteq> []" using ys by auto
  ultimately show ?thesis by (simp add: connected_states_def)
qed

subsection \<open>A checked configuration is symmetric\<close>

lemma check_config_all:
  "check_config inp es = None \<Longrightarrow> e \<in> set es \<Longrightarrow> state_ok inp e = None"
  by (induction es) (auto split: option.splits)

lemma state_ok_symmetric:
  assumes "state_ok inp (s, ns) = None" and "n \<in> set ns"
  shows "s \<in> set (neighbours (adjacency inp) n)"
  using assms
  by (auto simp: state_ok_def list_all_iff split: option.splits if_splits)

lemma config_symmetric:
  assumes ok: "check_config inp (adjacency inp) = None"
    and vu: "v \<in> set (neighbours (adjacency inp) u)"
  shows "u \<in> set (neighbours (adjacency inp) v)"
proof (cases "map_of (adjacency inp) u")
  case None
  with vu show ?thesis by (simp add: neighbours_def)
next
  case (Some ns)
  then have "(u, ns) \<in> set (adjacency inp)" by (rule map_of_SomeD)
  with ok have "state_ok inp (u, ns) = None" by (rule check_config_all)
  moreover from Some vu have "v \<in> set ns" by (simp add: neighbours_def)
  ultimately show ?thesis by (rule state_ok_symmetric)
qed

subsection \<open>Every candidate of the search is connected\<close>

lemma frontier_adjacent:
  "v \<in> set (frontier g xs) \<Longrightarrow> \<exists>u \<in> set xs. v \<in> set (neighbours g u)"
  by (auto simp: frontier_def)

lemma expand_connected:
  assumes ok: "check_config inp (adjacency inp) = None"
    and conn: "connected_states (adjacency inp) xs"
    and ys: "ys \<in> set (expand inp xs)"
  shows "connected_states (adjacency inp) ys"
proof -
  from ys obtain v where v: "v \<in> set (frontier (adjacency inp) xs)" and eq: "ys = insort v xs"
    by (auto simp: expand_def)
  from v obtain u where u: "u \<in> set xs" and uv: "v \<in> set (neighbours (adjacency inp) u)"
    by (auto dest: frontier_adjacent)
  from ok uv have vu: "u \<in> set (neighbours (adjacency inp) v)" by (rule config_symmetric)
  from eq have "set ys = insert v (set xs)" by (simp add: set_insort_key)
  with conn u uv vu show ?thesis by (rule connected_grow)
qed

lemma next_level_connected:
  assumes "check_config inp (adjacency inp) = None"
    and "\<And>xs. xs \<in> set lvl \<Longrightarrow> connected_states (adjacency inp) xs"
    and "ys \<in> set (next_level inp lvl)"
  shows "connected_states (adjacency inp) ys"
  using assms by (auto simp: next_level_def intro: expand_connected)

lemma levels_connected:
  assumes ok: "check_config inp (adjacency inp) = None"
  shows "(\<And>xs. xs \<in> set lvl \<Longrightarrow> connected_states (adjacency inp) xs) \<Longrightarrow>
         ys \<in> set (levels inp k lvl) \<Longrightarrow> connected_states (adjacency inp) ys"
proof (induction k arbitrary: lvl)
  case 0
  then show ?case by simp
next
  case (Suc k)
  from Suc.prems(2) consider "ys \<in> set lvl" | "ys \<in> set (levels inp k (next_level inp lvl))"
    by auto
  then show ?case
  proof cases
    case 1
    then show ?thesis by (rule Suc.prems(1))
  next
    case 2
    show ?thesis
    proof (rule Suc.IH[OF _ 2])
      fix xs assume "xs \<in> set (next_level inp lvl)"
      with ok Suc.prems(1) show "connected_states (adjacency inp) xs"
        by (rule next_level_connected)
    qed
  qed
qed

lemma candidates_connected:
  assumes "check_config inp (adjacency inp) = None" and "ys \<in> set (candidates inp)"
  shows "connected_states (adjacency inp) ys"
  using assms(2) unfolding candidates_def
  by (rule levels_connected[OF assms(1), rotated]) (auto simp: seeds_def connected_singleton)

lemma enumerate_members:
  assumes "enumerate_combinations inp = Inr cs" and "c \<in> set cs"
  shows "check_config inp (adjacency inp) = None \<and>
         (\<exists>xs \<in> set (candidates inp). retained inp xs \<and> c = tag inp xs)"
  using assms by (auto simp: enumerate_combinations_def split: option.splits)

subsection \<open>The example of section 8, step by step\<close>

lemma levels_Nil: "levels inp k [] = []"
  by (induction k) (simp_all add: next_level_def)

lemma example_check: "check_config (example_input mn mx) (adjacency (example_input mn mx)) = None"
  by code_simp

lemma example_seeds: "seeds (example_input mn mx) = [[''A''], [''B''], [''C''], [''D'']]"
  by code_simp

lemma example_level2:
  "next_level (example_input mn mx) [[''A''], [''B''], [''C''], [''D'']]
     = [[''A'', ''B''], [''B'', ''C''], [''C'', ''D'']]"
  by code_simp

lemma example_level3:
  "next_level (example_input mn mx) [[''A'', ''B''], [''B'', ''C''], [''C'', ''D'']] = []"
  by code_simp

lemma example_candidates:
  assumes "2 \<le> mx"
  shows "candidates (example_input mn mx)
     = [[''A''], [''B''], [''C''], [''D''], [''A'', ''B''], [''B'', ''C''], [''C'', ''D'']]"
proof -
  from assms obtain k where mx: "mx = Suc (Suc k)"
    using le_Suc_ex[of 2 mx] by auto
  have ms: "max_size (example_input mn mx) = mx" by (simp add: example_input_def)
  have "levels (example_input mn mx) (Suc (Suc k)) (seeds (example_input mn mx))
          = [[''A''], [''B''], [''C''], [''D''], [''A'', ''B''], [''B'', ''C''], [''C'', ''D'']]"
    by (cases k)
       (simp_all only: levels.simps example_seeds example_level2 example_level3 levels_Nil
          append.simps append_Nil2)
  with ms show ?thesis
    by (simp only: candidates_def mx)
qed

lemma example_within:
  "\<not> within_tolerance (example_input mn mx) [''A'']"
  "\<not> within_tolerance (example_input mn mx) [''B'']"
  "\<not> within_tolerance (example_input mn mx) [''C'']"
  "\<not> within_tolerance (example_input mn mx) [''D'']"
  "\<not> within_tolerance (example_input mn mx) [''A'', ''B'']"
  "within_tolerance (example_input mn mx) [''B'', ''C'']"
  "\<not> within_tolerance (example_input mn mx) [''C'', ''D'']"
  by code_simp+

lemma example_min: "min_size (example_input mn mx) = mn"
  by (simp add: example_input_def)

lemma example_filter:
  assumes "mn \<le> 2"
  shows "filter (retained (example_input mn mx))
           [[''A''], [''B''], [''C''], [''D''], [''A'', ''B''], [''B'', ''C''], [''C'', ''D'']]
         = [[''B'', ''C'']]"
  using assms by (simp add: retained_def example_within example_min)

lemma example_tag:
  "tag (example_input mn mx) [''B'', ''C''] = \<lparr>states = [''B'', ''C''], total_km2 = 35\<rparr>"
  by code_simp

lemma sort_key_single: "sort_key f [x] = [x]"
  by simp

lemma example_run:
  "enumerate_combinations (example_input 1 4) = Inr [\<lparr>states = [''B'', ''C''], total_km2 = 35\<rparr>]"
  by code_simp

section \<open>Claims about the enumerator\<close>

text \<open>
  C2. For every combination retained in the enumerator's output, the subgraph of the state
  adjacency graph induced on that combination's member states is connected: the member list is
  non-empty and every member reaches every other member along adjacent members. The enumerator is
  the one modelled from the specification.
\<close>

theorem retained_connected:
  assumes "enumerate_combinations inp = Inr cs" and "c \<in> set cs"
  shows "connected_states (adjacency inp) (states c)"
proof -
  from enumerate_members[OF assms] obtain xs
    where ok: "check_config inp (adjacency inp) = None"
      and xs: "xs \<in> set (candidates inp)" and c: "c = tag inp xs"
    by blast
  from ok xs have "connected_states (adjacency inp) xs" by (rule candidates_connected)
  with c show ?thesis by (simp add: tag_def)
qed

theorem retained_connected_witness:
  "connected_states (adjacency (example_input 1 4)) [''B'', ''C'']"
  using retained_connected[OF example_run, of "\<lparr>states = [''B'', ''C''], total_km2 = 35\<rparr>"]
  by simp

text \<open>
  C3. For every combination retained in the enumerator's output, the absolute difference between
  the sum of its member-state areas and the target area is at most the configured tolerance; the
  total it is tagged with is that sum. The enumerator is the one modelled from the specification.
\<close>

theorem retained_within_tolerance:
  assumes "enumerate_combinations inp = Inr cs" and "c \<in> set cs"
  shows "total_km2 c = sum_areas (areas inp) (states c) \<and>
         \<bar>sum_areas (areas inp) (states c) - target_area inp\<bar> \<le> tolerance inp"
proof -
  from enumerate_members[OF assms] obtain xs
    where "retained inp xs" and "c = tag inp xs"
    by blast
  then show ?thesis by (simp add: tag_def retained_def within_tolerance_def)
qed

theorem retained_within_tolerance_witness:
  "total_km2 \<lparr>states = [''B'', ''C''], total_km2 = 35\<rparr>
     = sum_areas (areas (example_input 1 4)) (states \<lparr>states = [''B'', ''C''], total_km2 = 35\<rparr>) \<and>
   \<bar>sum_areas (areas (example_input 1 4)) (states \<lparr>states = [''B'', ''C''], total_km2 = 35\<rparr>)
      - target_area (example_input 1 4)\<bar>
     \<le> tolerance (example_input 1 4)"
  by (rule retained_within_tolerance[OF example_run]) simp

text \<open>
  C7. On the graph with edges A-B, B-C, C-D, areas A:10, B:20, C:15, D:5, target area 35 and
  tolerance 0, the enumerator returns exactly the single combination {B, C} (total 35) and nothing
  else, for every size bound that admits a pair of states. The enumerator is the one modelled from
  the specification.
\<close>

theorem example_exactly_BC:
  assumes "mn \<le> 2" and "2 \<le> mx"
  shows "enumerate_combinations (example_input mn mx)
           = Inr [\<lparr>states = [''B'', ''C''], total_km2 = 35\<rparr>]"
  unfolding enumerate_combinations_def example_check example_candidates[OF assms(2)]
        example_filter[OF assms(1)]
  by (simp only: list.map example_tag sort_key_single option.case)

theorem example_exactly_BC_witness:
  "(1::nat) \<le> 2 \<and> (2::nat) \<le> 4 \<and>
   enumerate_combinations (example_input 1 4) = Inr [\<lparr>states = [''B'', ''C''], total_km2 = 35\<rparr>]"
proof -
  have a: "(1::nat) \<le> 2" and b: "(2::nat) \<le> 4" by simp_all
  from example_exactly_BC[OF a b] a b show ?thesis by (intro conjI)
qed

section \<open>Properties of the Viewer\<close>

subsection \<open>Outcomes\<close>

lemma fst_ok [simp]: "fst (ok s) = s" and snd_ok [simp]: "snd (ok s) = None"
  by (simp_all add: ok_def)

lemma fst_throw [simp]: "fst (throw e s) = s" and snd_throw [simp]: "snd (throw e s) = Some e"
  by (simp_all add: throw_def)

lemma fst_and_then: "fst (and_then r f) = (if snd r = None then fst (f (fst r)) else fst r)"
  by (simp add: and_then_def split: option.splits)

lemma snd_and_then: "snd (and_then r f) = (if snd r = None then snd (f (fst r)) else snd r)"
  by (simp add: and_then_def split: option.splits)

subsection \<open>No operation writes the loaded data\<close>

lemma cd_renderCombinations [simp]: "combinationsData (fst (renderCombinations s)) = combinationsData s"
  by (simp add: renderCombinations_def Let_def split: option.splits)

lemma cd_renderFilterTags [simp]: "combinationsData (renderFilterTags s) = combinationsData s"
  by (simp add: renderFilterTags_def updateFilterTotal_def Let_def)

lemma cd_highlight [simp]: "combinationsData (fst (highlightFilteredStates s)) = combinationsData s"
  by (simp add: highlightFilteredStates_def split: option.splits)

lemma cd_reset [simp]: "combinationsData (fst (resetMapStyles s)) = combinationsData s"
  by (simp add: resetMapStyles_def split: option.splits)

lemma cd_refresh [simp]: "combinationsData (fst (refresh_filter s)) = combinationsData s"
  by (simp add: refresh_filter_def fst_and_then)

lemma cd_hide [simp]: "combinationsData (hideDropdown s) = combinationsData s"
  by (simp add: hideDropdown_def)

lemma cd_add [simp]: "combinationsData (fst (addStateFilter x s)) = combinationsData s"
  by (simp add: addStateFilter_def fst_and_then)

lemma cd_remove [simp]: "combinationsData (fst (removeStateFilter x s)) = combinationsData s"
  by (simp add: removeStateFilter_def)

lemma cd_clearFilters [simp]: "combinationsData (fst (clearFilters s)) = combinationsData s"
  by (simp add: clearFilters_def)

lemma cd_show [simp]: "combinationsData (showDropdown js q s) = combinationsData s"
  by (simp add: showDropdown_def)

lemma cd_updateHighlight [simp]: "combinationsData (updateDropdownHighlight s) = combinationsData s"
  by (simp add: updateDropdownHighlight_def)

lemma cd_unmark [simp]: "combinationsData (unmark_previous s) = combinationsData s"
  by (simp add: unmark_previous_def split: option.splits)

lemma cd_tab [simp]: "combinationsData (tabClick v s) = combinationsData s"
  by (simp add: tabClick_def)

lemma cd_highlight_members [simp]:
  "combinationsData (highlight_members inc idx ls s) = combinationsData s"
  by (simp add: highlight_members_def)

lemma cd_fit [simp]: "combinationsData (fit_selected ms s) = combinationsData s"
  by (simp add: fit_selected_def)

lemma cd_select_new [simp]: "combinationsData (fst (select_new idx s)) = combinationsData s"
  by (simp add: select_new_def Let_def split: option.splits states_member.splits)

lemma cd_select [simp]: "combinationsData (fst (selectCombination idx s)) = combinationsData s"
  by (simp add: selectCombination_def fst_and_then)

lemma cd_clearSelection [simp]: "combinationsData (fst (clearSelection s)) = combinationsData s"
  by (simp add: clearSelection_def fst_and_then)

lemma cd_hover [simp]: "combinationsData (fst (handleStateHover i s)) = combinationsData s"
  by (simp add: handleStateHover_def Let_def split: option.splits)

lemma cd_out [simp]: "combinationsData (fst (handleStateOut i s)) = combinationsData s"
  by (simp add: handleStateOut_def Let_def split: option.splits)

lemma cd_click [simp]: "combinationsData (fst (handleStateClick i s)) = combinationsData s"
  by (simp add: handleStateClick_def split: option.splits)

lemma cd_keydown [simp]: "combinationsData (fst (keydown k s)) = combinationsData s"
  by (simp add: keydown_def Let_def split: key.splits)

lemma cd_input [simp]: "combinationsData (search_input js q s) = combinationsData s"
  by (simp add: search_input_def)

lemma cd_focus [simp]: "combinationsData (search_focus js s) = combinationsData s"
  by (simp add: search_focus_def)

lemma cd_dispatch: "combinationsData (fst (dispatch js ev s)) = combinationsData s"
  by (cases ev) (simp_all add: dispatch_def)

lemma cd_run: "combinationsData (run js evs s) = combinationsData s"
  by (induction evs arbitrary: s) (simp_all add: cd_dispatch)

subsection \<open>Combinations as the enumerator writes them\<close>

lemma as_combo_entry_of [simp]: "as_combo (entry_of c) = Some c"
  by (simp add: as_combo_def entry_of_def)

lemma entry_of_inject [simp]: "entry_of a = entry_of b \<longleftrightarrow> a = b"
  by (cases a; cases b) (simp add: entry_of_def)

lemma as_combo_Some: "as_combo e = Some c \<longleftrightarrow> e = entry_of c"
  by (cases e)
     (auto simp: as_combo_def entry_of_def split: states_member.splits option.splits shown.splits)

lemma those_as_combo: "those (map as_combo es) = Some cs \<longleftrightarrow> es = map entry_of cs"
proof (induction es arbitrary: cs)
  case Nil
  then show ?case by auto
next
  case (Cons e es)
  show ?case
    by (cases cs) (auto simp: Cons.IH as_combo_Some split: option.splits)
qed

lemma the_combinations_Some:
  "the_combinations s = Some cs \<longleftrightarrow> the_entries s = Some (map entry_of cs)"
  by (auto simp: the_combinations_def those_as_combo split: option.splits)

lemma every_total: "every (\<lambda>x. Some (P x)) xs = Some (list_all P xs)"
  by (induction xs) simp_all

lemma filter_throwing_total: "filter_throwing (\<lambda>x. Some (P x)) xs = Some (filter P xs)"
  by (induction xs) simp_all

lemma entry_includes_entry_of [simp]:
  "entry_includes (entry_of c) name = Some (name \<in> set (states c))"
  by (simp add: entry_includes_def entry_of_def)

lemma entry_includes_entry_of_fun:
  "entry_includes (entry_of c) = (\<lambda>name. Some (name \<in> set (states c)))"
  by (simp add: fun_eq_iff)

lemma entry_passes_entry_of: "entry_passes selected (entry_of c) = Some (passes_filter selected c)"
  by (simp add: entry_passes_def passes_filter_def entry_includes_entry_of_fun every_total)

lemma createComboItem_entry_of [simp]:
  "createComboItem s (entry_of c) idx = Some (combo_row s c idx)"
  by (simp add: createComboItem_def entry_of_def combo_row_def shown_piece_def)

lemma indexed_map: "indexed (map f xs) = map (\<lambda>x. (fst x, f (snd x))) (indexed xs)"
  by (simp add: indexed_def zip_map2 case_prod_beta)

lemma filter_throwing_entries_of:
  "filter_throwing (\<lambda>x. entry_passes selected (snd x)) (map (\<lambda>x. (fst x, entry_of (snd x))) xs)
     = Some (map (\<lambda>x. (fst x, entry_of (snd x))) (filter (\<lambda>x. passes_filter selected (snd x)) xs))"
  by (induction xs) (simp_all add: entry_passes_entry_of)

lemma filter_entries_of:
  "filter_throwing (\<lambda>x. entry_passes selected (snd x)) (indexed (map entry_of cs))
     = Some (map (\<lambda>x. (fst x, entry_of (snd x))) (filtered_combinations selected cs))"
  by (simp only: indexed_map filter_throwing_entries_of filtered_combinations_def)

lemma append_rows_entries_of:
  "append_rows s (map (\<lambda>x. (fst x, entry_of (snd x))) xs)
     = (map (\<lambda>x. combo_row s (snd x) (fst x)) xs, True)"
  by (induction xs) simp_all


subsection \<open>The filter of the combination list\<close>

lemma set_indexed: "set (indexed xs) = {(i, xs ! i) | i. i < length xs}"
  by (force simp: indexed_def set_zip)

lemma length_indexed [simp]: "length (indexed xs) = length xs"
  by (simp add: indexed_def)

lemma map_snd_indexed [simp]: "map snd (indexed xs) = xs"
  by (simp add: indexed_def)

lemma passes_filter_iff: "passes_filter selected combo = (set selected \<subseteq> set (states combo))"
  by (auto simp: passes_filter_def list_all_iff)


lemma render_rows:
  assumes "the_combinations s = Some cs"
  shows "combinations_list (fst (renderCombinations s))
           = map (\<lambda>x. combo_row (s\<lparr>combinations_list := []\<rparr>) (snd x) (fst x))
               (take 500 (filtered_combinations (selectedStates s) cs))"
    and "list_header (fst (renderCombinations s))
           = [Loc (int (length (filtered_combinations (selectedStates s) cs))),
              Str ('' combinations'' @
                   (if selectedStates s = [] then [] else '' containing '' @ join '', '' (selectedStates s)))]"
    and "snd (renderCombinations s) = None"
proof -
  from assms have es: "the_entries (s\<lparr>combinations_list := []\<rparr>) = Some (map entry_of cs)"
    by (simp add: the_combinations_Some the_entries_def)
  have tk: "take (min (length xs) 500) (map g xs) = map g (take 500 xs)" for g :: "nat \<times> combo \<Rightarrow> nat \<times> entry" and xs
    by (simp add: take_map min_def)
  show "combinations_list (fst (renderCombinations s))
           = map (\<lambda>x. combo_row (s\<lparr>combinations_list := []\<rparr>) (snd x) (fst x))
               (take 500 (filtered_combinations (selectedStates s) cs))"
    by (simp add: renderCombinations_def Let_def es filter_entries_of tk append_rows_entries_of)
  show "list_header (fst (renderCombinations s))
           = [Loc (int (length (filtered_combinations (selectedStates s) cs))),
              Str ('' combinations'' @
                   (if selectedStates s = [] then [] else '' containing '' @ join '', '' (selectedStates s)))]"
    by (simp add: renderCombinations_def Let_def es filter_entries_of tk append_rows_entries_of)
  show "snd (renderCombinations s) = None"
    by (simp add: renderCombinations_def Let_def es filter_entries_of tk append_rows_entries_of)
qed

lemma item_index_combo_row [simp]: "item_index (combo_row s c i) = i"
  by (simp add: combo_row_def)

text \<open>
  C1. A combination passes the Viewer's filter if and only if every state name of the filter list
  is among the combination's states, and every combination passes the empty filter; this is what
  the callback of \<^verbatim>\<open>filter\<close> returns on the combination as it is in the file. The entries
  \<^verbatim>\<open>renderCombinations\<close> keeps are the combinations of the loaded list that pass, and the rows
  it renders are the first 500 of them, each under the index it has in the loaded list.
\<close>

theorem filter_requires_all_selected:
  "passes_filter selected combo = (set selected \<subseteq> set (states combo)) \<and>
   passes_filter [] combo \<and>
   entry_passes selected (entry_of combo) = Some (passes_filter selected combo) \<and>
   set (filtered_combinations selected cs)
     = {e \<in> set (indexed cs). set selected \<subseteq> set (states (snd e))} \<and>
   (the_combinations s = Some cs \<longrightarrow>
      map item_index (combinations_list (fst (renderCombinations s)))
        = take 500 (map fst (filtered_combinations (selectedStates s) cs)))"
proof (intro conjI impI)
  show "passes_filter selected combo = (set selected \<subseteq> set (states combo))"
    by (rule passes_filter_iff)
  show "passes_filter [] combo"
    by (simp add: passes_filter_def)
  show "entry_passes selected (entry_of combo) = Some (passes_filter selected combo)"
    by (rule entry_passes_entry_of)
  show "set (filtered_combinations selected cs)
     = {e \<in> set (indexed cs). set selected \<subseteq> set (states (snd e))}"
    by (auto simp: filtered_combinations_def passes_filter_iff)
next
  assume "the_combinations s = Some cs"
  then show "map item_index (combinations_list (fst (renderCombinations s)))
        = take 500 (map fst (filtered_combinations (selectedStates s) cs))"
    by (simp add: render_rows(1) take_map comp_def)
qed

lemma sample_loaded: "the_combinations sample_viewer = Some sample_combos"
  by code_simp

lemma sample_filtered_loaded: "the_combinations sample_filtered = Some sample_combos"
  by code_simp

lemma sample_filtered_sel: "selectedStates sample_filtered = [''Kansas'']"
  by code_simp

lemma sample_filtered_entries: "map fst (filtered_combinations [''Kansas''] sample_combos) = [1]"
  by code_simp

theorem filter_requires_all_selected_witness:
  "the_combinations sample_filtered = Some sample_combos \<and>
   map item_index (combinations_list (fst (renderCombinations sample_filtered))) = [1]"
  using filter_requires_all_selected[of "[]" "\<lparr>states = [], total_km2 = 0\<rparr>" sample_combos sample_filtered]
  by (simp add: sample_filtered_loaded sample_filtered_sel sample_filtered_entries)

subsection \<open>The rendered list is bounded\<close>

lemma length_mark_item [simp]: "length (mark_item k b items) = length items"
  unfolding mark_item_def by (induction items) simp_all


lemma cl_renderFilterTags [simp]: "combinations_list (renderFilterTags s) = combinations_list s"
  by (simp add: renderFilterTags_def updateFilterTotal_def Let_def)

lemma cl_highlight [simp]: "combinations_list (fst (highlightFilteredStates s)) = combinations_list s"
  by (simp add: highlightFilteredStates_def split: option.splits)

lemma cl_reset [simp]: "combinations_list (fst (resetMapStyles s)) = combinations_list s"
  by (simp add: resetMapStyles_def split: option.splits)

lemma cl_hide [simp]: "combinations_list (hideDropdown s) = combinations_list s"
  by (simp add: hideDropdown_def)

lemma cl_show [simp]: "combinations_list (showDropdown js q s) = combinations_list s"
  by (simp add: showDropdown_def)

lemma cl_updateHighlight [simp]: "combinations_list (updateDropdownHighlight s) = combinations_list s"
  by (simp add: updateDropdownHighlight_def)

lemma cl_tab [simp]: "combinations_list (tabClick v s) = combinations_list s"
  by (simp add: tabClick_def)



lemma unmark_bound [simp]: "length (combinations_list (unmark_previous s)) = length (combinations_list s)"
  by (simp add: unmark_previous_def split: option.splits)

lemma fit_bound [simp]: "combinations_list (fit_selected ms s) = combinations_list s"
  by (simp add: fit_selected_def)

lemma select_new_bound [simp]:
  "length (combinations_list (fst (select_new idx s))) = length (combinations_list s)"
  by (simp add: select_new_def highlight_members_def Let_def
        split: option.splits states_member.splits)

lemma select_bound [simp]:
  "length (combinations_list (fst (selectCombination idx s))) = length (combinations_list s)"
  by (simp add: selectCombination_def fst_and_then)

lemma clearSelection_bound [simp]:
  "length (combinations_list (fst (clearSelection s))) = length (combinations_list s)"
  by (simp add: clearSelection_def fst_and_then)

lemma hover_cl [simp]: "combinations_list (fst (handleStateHover i s)) = combinations_list s"
  by (simp add: handleStateHover_def Let_def split: option.splits)

lemma out_cl [simp]: "combinations_list (fst (handleStateOut i s)) = combinations_list s"
  by (simp add: handleStateOut_def Let_def split: option.splits)









subsection \<open>The filter list\<close>

lemma ss_renderCombinations [simp]: "selectedStates (fst (renderCombinations s)) = selectedStates s"
  by (simp add: renderCombinations_def Let_def split: option.splits)

lemma ss_renderFilterTags [simp]: "selectedStates (renderFilterTags s) = selectedStates s"
  by (simp add: renderFilterTags_def updateFilterTotal_def Let_def)

lemma ss_highlight [simp]: "selectedStates (fst (highlightFilteredStates s)) = selectedStates s"
  by (simp add: highlightFilteredStates_def split: option.splits)

lemma ss_reset [simp]: "selectedStates (fst (resetMapStyles s)) = selectedStates s"
  by (simp add: resetMapStyles_def split: option.splits)

lemma ss_refresh [simp]: "selectedStates (fst (refresh_filter s)) = selectedStates s"
  by (simp add: refresh_filter_def fst_and_then)

lemma ss_hide [simp]: "selectedStates (hideDropdown s) = selectedStates s"
  by (simp add: hideDropdown_def)

lemma ss_add:
  "selectedStates (fst (addStateFilter x s))
     = (if x \<in> set (selectedStates s) then selectedStates s else selectedStates s @ [x])"
  by (simp add: addStateFilter_def fst_and_then)

lemma ss_remove: "selectedStates (fst (removeStateFilter x s)) = filter (\<lambda>y. y \<noteq> x) (selectedStates s)"
  by (simp add: removeStateFilter_def)

lemma ss_clear: "selectedStates (fst (clearFilters s)) = []"
  by (simp add: clearFilters_def)

lemma op_distinct: "distinct (selectedStates s) \<Longrightarrow> distinct (selectedStates (apply_filter_op x s))"
  by (cases x) (simp_all add: ss_add ss_remove ss_clear)

lemma ops_distinct: "distinct (selectedStates s) \<Longrightarrow> distinct (selectedStates (apply_filter_ops xs s))"
  by (induction xs arbitrary: s) (simp_all add: op_distinct)

lemma ss_show [simp]: "selectedStates (showDropdown js q s) = selectedStates s"
  by (simp add: showDropdown_def)

lemma ss_updateHighlight [simp]: "selectedStates (updateDropdownHighlight s) = selectedStates s"
  by (simp add: updateDropdownHighlight_def)

lemma ss_unmark [simp]: "selectedStates (unmark_previous s) = selectedStates s"
  by (simp add: unmark_previous_def split: option.splits)

lemma ss_tab [simp]: "selectedStates (tabClick v s) = selectedStates s"
  by (simp add: tabClick_def)

lemma ss_fit [simp]: "selectedStates (fit_selected ms s) = selectedStates s"
  by (simp add: fit_selected_def)

lemma ss_select_new [simp]: "selectedStates (fst (select_new idx s)) = selectedStates s"
  by (simp add: select_new_def highlight_members_def Let_def
        split: option.splits states_member.splits)

lemma ss_select [simp]: "selectedStates (fst (selectCombination idx s)) = selectedStates s"
  by (simp add: selectCombination_def fst_and_then)

lemma ss_clearSelection [simp]: "selectedStates (fst (clearSelection s)) = selectedStates s"
  by (simp add: clearSelection_def fst_and_then)

lemma ss_hover [simp]: "selectedStates (fst (handleStateHover i s)) = selectedStates s"
  by (simp add: handleStateHover_def Let_def split: option.splits)

lemma ss_out [simp]: "selectedStates (fst (handleStateOut i s)) = selectedStates s"
  by (simp add: handleStateOut_def Let_def split: option.splits)

lemma add_distinct: "distinct (selectedStates s) \<Longrightarrow> distinct (selectedStates (fst (addStateFilter x s)))"
  by (simp add: ss_add)

lemma click_distinct: "distinct (selectedStates s) \<Longrightarrow> distinct (selectedStates (fst (handleStateClick i s)))"
  by (simp add: handleStateClick_def add_distinct split: option.splits)

lemma keydown_distinct: "distinct (selectedStates s) \<Longrightarrow> distinct (selectedStates (fst (keydown k s)))"
  by (simp add: keydown_def Let_def add_distinct split: key.splits)

lemma dispatch_distinct:
  assumes "distinct (selectedStates s)"
  shows "distinct (selectedStates (fst (dispatch js ev s)))"
  using assms
  by (cases ev)
     (simp_all add: dispatch_def click_distinct keydown_distinct add_distinct ss_remove ss_clear
        search_input_def search_focus_def)

lemma run_distinct: "distinct (selectedStates s) \<Longrightarrow> distinct (selectedStates (run js evs s))"
  by (induction evs arbitrary: s) (simp_all add: dispatch_distinct)

lemma initial_selected: "selectedStates (initial_viewer w) = []"
  by (simp add: initial_viewer_def)

text \<open>
  C8. The filter list never holds a state twice: \<^verbatim>\<open>addStateFilter\<close> leaves the list as it is
  when the state is already in it, \<^verbatim>\<open>removeStateFilter\<close> removes every occurrence of the
  state, and every sequence of add, remove and clear operations, and every sequence of events,
  keeps the list free of duplicates; from the empty list of the fresh page in particular.
\<close>

theorem filter_list_distinct:
  "(x \<in> set (selectedStates s) \<longrightarrow> selectedStates (fst (addStateFilter x s)) = selectedStates s) \<and>
   x \<notin> set (selectedStates (fst (removeStateFilter x s))) \<and>
   (distinct (selectedStates s) \<longrightarrow> distinct (selectedStates (apply_filter_ops ops s))) \<and>
   distinct (selectedStates (apply_filter_ops ops (initial_viewer w))) \<and>
   (distinct (selectedStates s) \<longrightarrow> distinct (selectedStates (run js evs s)))"
proof (intro conjI impI)
  show "selectedStates (fst (addStateFilter x s)) = selectedStates s" if "x \<in> set (selectedStates s)"
    using that by (simp add: ss_add)
  show "x \<notin> set (selectedStates (fst (removeStateFilter x s)))"
    by (simp add: ss_remove)
  show "distinct (selectedStates (apply_filter_ops ops s))" if "distinct (selectedStates s)"
    using that by (rule ops_distinct)
  show "distinct (selectedStates (apply_filter_ops ops (initial_viewer w)))"
    by (rule ops_distinct) (simp add: initial_selected)
  show "distinct (selectedStates (run js evs s))" if "distinct (selectedStates s)"
    using that by (rule run_distinct)
qed

theorem filter_list_distinct_witness:
  "selectedStates (fst (addStateFilter ''Kansas'' sample_filtered)) = [''Kansas''] \<and>
   ''Kansas'' \<notin> set (selectedStates (fst (removeStateFilter ''Kansas'' sample_filtered))) \<and>
   distinct (selectedStates
      (apply_filter_ops [Add ''Texas'', Add ''Texas'', Remove ''Ohio'', Add ''Kansas''] sample_filtered)) \<and>
   distinct (selectedStates (run ascii_builtins [LayerClick 0, LayerClick 0, TagClick 0] sample_filtered))"
  using filter_list_distinct[of "''Kansas''" sample_filtered
          "[Add ''Texas'', Add ''Texas'', Remove ''Ohio'', Add ''Kansas'']" 1024
          ascii_builtins "[LayerClick 0, LayerClick 0, TagClick 0]"]
  by (simp add: sample_filtered_sel)

subsection \<open>The typeahead\<close>

lemma starts_with_iff: "starts_with h n \<longleftrightarrow> (\<exists>t. h = n @ t)"
  by (induction h n rule: starts_with.induct) auto

lemma str_includes_iff: "str_includes h n \<longleftrightarrow> (\<exists>p t. h = p @ n @ t)"
proof (induction h)
  case Nil
  then show ?case by auto
next
  case (Cons c cs)
  have "(\<exists>p t. c # cs = p @ n @ t) \<longleftrightarrow> (\<exists>t. c # cs = n @ t) \<or> (\<exists>p t. cs = p @ n @ t)"
  proof
    assume "\<exists>p t. c # cs = p @ n @ t"
    then obtain p t where eq: "c # cs = p @ n @ t" by blast
    show "(\<exists>t. c # cs = n @ t) \<or> (\<exists>p t. cs = p @ n @ t)"
    proof (cases p)
      case Nil
      with eq show ?thesis by auto
    next
      case (Cons a p')
      with eq have "cs = p' @ n @ t" by simp
      then show ?thesis by blast
    qed
  next
    assume "(\<exists>t. c # cs = n @ t) \<or> (\<exists>p t. cs = p @ n @ t)"
    then show "\<exists>p t. c # cs = p @ n @ t"
    proof
      assume "\<exists>t. c # cs = n @ t"
      then obtain t where "c # cs = [] @ n @ t" by auto
      then show ?thesis by blast
    next
      assume "\<exists>p t. cs = p @ n @ t"
      then obtain p t where "c # cs = (c # p) @ n @ t" by auto
      then show ?thesis by blast
    qed
  qed
  with Cons show ?case by (simp add: starts_with_iff)
qed

lemma map_item_name_dropdown_of [simp]: "map item_name (dropdown_of hi names) = names"
  by (simp add: dropdown_of_def comp_def)

lemma displayed_show:
  "displayed_entries (showDropdown js q s)
     = (if matches js s q = [] \<or> q = [] then [] else take 8 (matches js s q))"
  by (simp add: displayed_entries_def showDropdown_def hideDropdown_def)

lemma matches_member:
  "name \<in> set (matches js s q) \<Longrightarrow>
     name \<in> set (allStateNames s) \<and> name \<notin> set (selectedStates s)
     \<and> (\<exists>p t. toLowerCase js name = p @ toLowerCase js q @ t)"
  by (auto simp: matches_def str_includes_iff)

lemma lower48_names:
  "lower48 fs = Some names \<Longrightarrow>
     set names \<inter> {''Alaska'', ''Hawaii'', ''Puerto Rico'', ''District of Columbia''} = {}"
proof (induction fs arbitrary: names)
  case Nil
  then show ?case by simp
next
  case (Cons f fs)
  show ?case
  proof (cases f)
    case BadFeature
    with Cons.prems show ?thesis by simp
  next
    case (Named name)
    with Cons.prems obtain rest where rest: "lower48 fs = Some rest"
      and names: "names = (if name \<noteq> ''Alaska'' \<and> name \<noteq> ''Hawaii''
                   \<and> name \<noteq> ''Puerto Rico'' \<and> name \<noteq> ''District of Columbia''
                then name # rest else rest)"
      by (auto split: option.splits)
    from Cons.IH[OF rest] names show ?thesis
      by (auto split: if_splits)
  qed
qed

lemma renderStates_names:
  assumes "snd (renderStates t) = None"
  shows "set (allStateNames (fst (renderStates t)))
           \<inter> {''Alaska'', ''Hawaii'', ''Puerto Rico'', ''District of Columbia''} = {}"
proof -
  from assms obtain g fs names where "statesGeoJSON t = Some g" "features g = Features fs"
    "lower48 fs = Some names"
    by (auto simp: renderStates_def split: option.splits features_member.splits)
  then show ?thesis
    using lower48_names[of fs names] by (simp add: renderStates_def)
qed

text \<open>
  C9. After \<^verbatim>\<open>showDropdown(query)\<close> the dropdown displays at most 8 entries; each is one of
  the names of the typeahead (which \<^verbatim>\<open>renderStates\<close> takes from the lower 48 features), contains
  the query when both are lower-cased, and is not in the filter list; when the query is empty or
  nothing matches, the dropdown is hidden and the highlight index is -1; otherwise the entries are
  the first 8 matches. This holds for every query and every filter list, whatever
  \<^verbatim>\<open>toLowerCase\<close> does to a string.
\<close>

theorem dropdown_entries:
  "length (displayed_entries (showDropdown js query s)) \<le> 8 \<and>
   (\<forall>name \<in> set (displayed_entries (showDropdown js query s)).
       name \<in> set (allStateNames s) \<and> name \<notin> set (selectedStates s)
       \<and> (\<exists>p t. toLowerCase js name = p @ toLowerCase js query @ t)) \<and>
   (query = [] \<or> matches js s query = [] \<longrightarrow>
       search_dropdown_hidden (showDropdown js query s)
       \<and> highlightedIndex (showDropdown js query s) = - 1
       \<and> displayed_entries (showDropdown js query s) = []) \<and>
   (query \<noteq> [] \<and> matches js s query \<noteq> [] \<longrightarrow>
       displayed_entries (showDropdown js query s) = take 8 (matches js s query)) \<and>
   (snd (renderStates t) = None \<longrightarrow>
       set (allStateNames (fst (renderStates t)))
         \<inter> {''Alaska'', ''Hawaii'', ''Puerto Rico'', ''District of Columbia''} = {})"
proof (intro conjI impI ballI)
  show "length (displayed_entries (showDropdown js query s)) \<le> 8"
    by (simp add: displayed_show)
next
  fix name assume "name \<in> set (displayed_entries (showDropdown js query s))"
  then have "name \<in> set (matches js s query)"
    by (auto simp: displayed_show split: if_splits dest: in_set_takeD)
  then show "name \<in> set (allStateNames s)" "name \<notin> set (selectedStates s)"
    "\<exists>p t. toLowerCase js name = p @ toLowerCase js query @ t"
    by (auto dest: matches_member)
next
  assume h: "query = [] \<or> matches js s query = []"
  then show "search_dropdown_hidden (showDropdown js query s)"
    "highlightedIndex (showDropdown js query s) = - 1"
    "displayed_entries (showDropdown js query s) = []"
    by (auto simp: showDropdown_def hideDropdown_def displayed_entries_def)
next
  assume "query \<noteq> [] \<and> matches js s query \<noteq> []"
  then show "displayed_entries (showDropdown js query s) = take 8 (matches js s query)"
    by (simp add: displayed_show)
next
  assume "snd (renderStates t) = None"
  then show "set (allStateNames (fst (renderStates t)))
         \<inter> {''Alaska'', ''Hawaii'', ''Puerto Rico'', ''District of Columbia''} = {}"
    by (rule renderStates_names)
qed

subsection \<open>The sample page\<close>

lemma sample_matches_kAN: "matches ascii_builtins sample_viewer ''kAN'' = [''Kansas'']"
  by code_simp

lemma sample_matches_zz: "matches ascii_builtins sample_viewer ''zz'' = []"
  by code_simp

lemma sample_matches_kelvin:
  "matches kelvin_builtins sample_viewer kelvin_sign = [''Kansas'', ''Oklahoma'']"
  by code_simp

lemma sample_names: "allStateNames sample_viewer = [''Kansas'', ''Ohio'', ''Oklahoma'', ''Texas'']"
  by code_simp

lemma sample_none_selected: "selectedStates sample_viewer = []"
  by code_simp

lemma sample_renderStates: "snd (renderStates sample_viewer) = None"
  by code_simp

lemma kelvin_sign_not_empty: "kelvin_sign \<noteq> []"
  by (simp add: kelvin_sign_def)

theorem dropdown_entries_witness:
  "displayed_entries (showDropdown ascii_builtins ''kAN'' sample_viewer) = [''Kansas''] \<and>
   (\<exists>p t. toLowerCase ascii_builtins ''Kansas'' = p @ toLowerCase ascii_builtins ''kAN'' @ t) \<and>
   displayed_entries (showDropdown kelvin_builtins kelvin_sign sample_viewer)
     = [''Kansas'', ''Oklahoma''] \<and>
   (\<exists>p t. toLowerCase kelvin_builtins ''Oklahoma'' = p @ toLowerCase kelvin_builtins kelvin_sign @ t) \<and>
   search_dropdown_hidden (showDropdown ascii_builtins ''zz'' sample_viewer) \<and>
   highlightedIndex (showDropdown ascii_builtins ''zz'' sample_viewer) = - 1 \<and>
   set (allStateNames (fst (renderStates sample_viewer)))
     \<inter> {''Alaska'', ''Hawaii'', ''Puerto Rico'', ''District of Columbia''} = {}"
  using dropdown_entries[of ascii_builtins "''kAN''" sample_viewer sample_viewer]
        dropdown_entries[of kelvin_builtins kelvin_sign sample_viewer sample_viewer]
        dropdown_entries[of ascii_builtins "''zz''" sample_viewer sample_viewer]
  by (simp add: sample_matches_kAN sample_matches_zz sample_matches_kelvin sample_renderStates
        kelvin_sign_not_empty)

subsection \<open>Hovering\<close>

lemma length_setStyle [simp]: "length (setStyle i f ls) = length ls"
  by (simp add: setStyle_def)









subsection \<open>The loaded data is never written\<close>

text \<open>
  C4. Every operation of the Viewer leaves the loaded combination data as it is: rendering the
  list, adding or removing a filter state, clearing the filter, a typeahead query, selecting a
  combination, clearing the selection, any single event and any sequence of events.
\<close>

theorem viewer_never_mutates_combinations:
  "combinationsData (fst (renderCombinations s)) = combinationsData s \<and>
   combinationsData (fst (addStateFilter x s)) = combinationsData s \<and>
   combinationsData (fst (removeStateFilter x s)) = combinationsData s \<and>
   combinationsData (fst (clearFilters s)) = combinationsData s \<and>
   combinationsData (showDropdown js query s) = combinationsData s \<and>
   combinationsData (fst (selectCombination idx s)) = combinationsData s \<and>
   combinationsData (fst (clearSelection s)) = combinationsData s \<and>
   combinationsData (fst (dispatch js ev s)) = combinationsData s \<and>
   combinationsData (run js evs s) = combinationsData s \<and>
   the_combinations (run js evs s) = the_combinations s"
  by (simp add: cd_dispatch cd_run the_combinations_def the_entries_def)

subsection \<open>Start-up\<close>



lemma frame_loadStates [simp]:
  "list_header (fst (loadStatesGeoJSON geo s)) = list_header s"
  "listeners_installed (fst (loadStatesGeoJSON geo s)) = listeners_installed s"
  "selectedStates (fst (loadStatesGeoJSON geo s)) = selectedStates s"
  by (simp_all add: loadStatesGeoJSON_def split: fetched.splits)

lemma frame_loadCombinations [simp]:
  "list_header (fst (loadCombinations cmb s)) = list_header s"
  "listeners_installed (fst (loadCombinations cmb s)) = listeners_installed s"
  "selectedStates (fst (loadCombinations cmb s)) = selectedStates s"
  "statesGeoJSON (fst (loadCombinations cmb s)) = statesGeoJSON s"
  by (simp_all add: loadCombinations_def Let_def
        split: fetched.splits option.splits list_member.splits)

lemma frame_renderStates [simp]:
  "list_header (fst (renderStates s)) = list_header s"
  "listeners_installed (fst (renderStates s)) = listeners_installed s"
  "selectedStates (fst (renderStates s)) = selectedStates s"
  "combinationsData (fst (renderStates s)) = combinationsData s"
  by (simp_all add: renderStates_def split: option.splits features_member.splits)

lemma geo_loadStates [simp]:
  "statesGeoJSON (fst (loadStatesGeoJSON (Parsed g) s)) = Some g"
  by (simp add: loadStatesGeoJSON_def)

lemma cd_loadCombinations [simp]:
  "combinationsData (fst (loadCombinations (Parsed d) s)) = Some d"
  by (simp add: loadCombinations_def Let_def split: option.splits list_member.splits)


lemma li_renderCombinations [simp]:
  "listeners_installed (fst (renderCombinations s)) = listeners_installed s"
  by (simp add: renderCombinations_def Let_def split: option.splits)

lemma the_entries_clear [simp]: "the_entries (s\<lparr>combinations_list := v\<rparr>) = the_entries s"
  by (simp add: the_entries_def)










lemma frame_initMap [simp]:
  "list_header (initMap s) = list_header s"
  "listeners_installed (initMap s) = listeners_installed s"
  "selectedStates (initMap s) = selectedStates s"
  by (simp_all add: initMap_def)








subsection \<open>Selecting gives the members the selected style\<close>

lemma sl_fit [simp]: "statesLayer (fit_selected ms s) = statesLayer s"
  by (simp add: fit_selected_def tabClick_def)

lemma sci_fit [simp]: "selectedComboIndex (fit_selected ms s) = selectedComboIndex s"
  by (simp add: fit_selected_def tabClick_def)

lemma entry_at_select [simp]: "entry_at (t\<lparr>selectedComboIndex := v\<rparr>) idx = entry_at t idx"
  by (simp add: entry_at_def the_entries_def)

lemma highlight_members_styles:
  "statesLayer (highlight_members inc idx ls t)
     = Some (map (\<lambda>l. if inc (layer_name l) then l\<lparr>layer_style := selectedStyle\<rparr> else l) ls)"
  "selectedComboIndex (highlight_members inc idx ls t) = selectedComboIndex t"
  by (simp_all add: highlight_members_def)

lemma select_new_styles:
  assumes "snd (select_new idx t) = None"
  shows "\<exists>e xs ls. entry_at t idx = Some e \<and> entry_states e = StateList xs
           \<and> selectedComboIndex (fst (select_new idx t)) = Some idx
           \<and> statesLayer (fst (select_new idx t)) = Some ls
           \<and> list_all (\<lambda>l. layer_name l \<in> set xs \<longrightarrow> layer_style l = selectedStyle) ls"
proof -
  from assms obtain e where e: "entry_at t idx = Some e"
    by (cases "entry_at t idx") (simp_all add: select_new_def Let_def)
  from assms e obtain ls0 where ls0: "statesLayer t = Some ls0"
    by (cases "statesLayer t") (simp_all add: select_new_def Let_def)
  from assms e ls0 obtain xs where xs: "entry_states e = StateList xs"
    by (cases "entry_states e") (simp_all add: select_new_def Let_def split: if_splits)
  from assms e ls0 xs obtain tot where tot: "entry_total e = Some tot"
    by (cases "entry_total e") (simp_all add: select_new_def Let_def split: if_splits)
  have inc: "(entry_includes e name = Some True) = (name \<in> set xs)" for name
    by (simp add: entry_includes_def xs)
  have "fst (select_new idx t) =
          fit_selected (member_layers (\<lambda>name. name \<in> set xs) ls0)
            ((highlight_members (\<lambda>name. name \<in> set xs) idx ls0 (t\<lparr>selectedComboIndex := Some idx\<rparr>))
               \<lparr>selected_states_text := join '', '' xs,
                selected_area_text := [shown_piece tot, Str km2]\<rparr>)"
    by (simp add: select_new_def Let_def e ls0 xs tot inc entry_includes_def)
  then show ?thesis
    by (auto simp: e xs highlight_members_styles list_all_iff)
qed

lemma entry_at_pre [simp]:
  "entry_at (fst (resetMapStyles s)) idx = entry_at s idx"
  "entry_at (unmark_previous s) idx = entry_at s idx"
  by (simp_all add: entry_at_def the_entries_def)

lemma select_styles_members:
  assumes "snd (selectCombination idx s) = None"
  shows "\<exists>e xs ls. entry_at s idx = Some e \<and> entry_states e = StateList xs
           \<and> selectedComboIndex (fst (selectCombination idx s)) = Some idx
           \<and> statesLayer (fst (selectCombination idx s)) = Some ls
           \<and> list_all (\<lambda>l. layer_name l \<in> set xs \<longrightarrow> layer_style l = selectedStyle) ls"
proof -
  define pre where "pre = (if selectedComboIndex s \<noteq> None
        then and_then (resetMapStyles s) (\<lambda>t. ok (unmark_previous t)) else ok s)"
  have sc: "selectCombination idx s = and_then pre (select_new idx)"
    by (simp add: selectCombination_def pre_def)
  from assms have p: "snd pre = None" and n: "snd (select_new idx (fst pre)) = None"
    by (auto simp: sc snd_and_then split: if_splits)
  have tc: "entry_at (fst pre) idx = entry_at s idx"
    by (simp add: pre_def fst_and_then)
  from select_new_styles[OF n] show ?thesis
    by (simp add: sc fst_and_then p tc)
qed

end
